theory Spec2Isabelle
  imports Complex_Main "HOL-Library.Word"
begin

section \<open>Data model of the scene manager\<close>

text \<open>
  The model follows \<^verbatim>\<open>Source/SceneManager.cpp\<close>. A C++ \<^verbatim>\<open>float\<close> is carried by the real
  number it denotes; the model itself never adds or multiplies two of them: all arithmetic
  happens inside the glm library, which is a parameter (record \<open>glm\<close> below). NaN and the
  infinities are outside the model. \<^verbatim>\<open>GLuint\<close> is a 32-bit word, \<^verbatim>\<open>int\<close> an integer whose
  only arithmetic is the increment of a count bounded by the length of an array.
\<close>

type_synonym float = real
type_synonym GLuint = "32 word"

datatype vec2 = vec2 float float
datatype vec3 = vec3 float float float
datatype vec4 = vec4 float float float float

text \<open>A \<^verbatim>\<open>glm::mat4\<close> is four columns.\<close>

datatype mat4 = mat4 vec4 vec4 vec4 vec4

text \<open>
  \<^verbatim>\<open>OBJECT_MATERIAL\<close> and \<^verbatim>\<open>TEXTURE_INFO\<close> are declared in \<^verbatim>\<open>SceneManager.h\<close>; the fields
  are the ones that \<^verbatim>\<open>SceneManager.cpp\<close> reads and writes. The field \<^verbatim>\<open>ID\<close> is a
  \<^verbatim>\<open>GLuint\<close>: its address is passed to \<^verbatim>\<open>glGenTextures\<close>.
\<close>

record OBJECT_MATERIAL =
  diffuseColor :: vec3
  specularColor :: vec3
  shininess :: float
  tag :: string

record TEXTURE_INFO =
  ID :: GLuint
  tag :: string

datatype BoxSide = BoxSide_front | BoxSide_back | BoxSide_top | BoxSide_bottom
  | BoxSide_left | BoxSide_right

datatype GLenum = GL_TEXTURE_2D | GL_TEXTURE_WRAP_S | GL_TEXTURE_WRAP_T | GL_REPEAT
  | GL_TEXTURE_MIN_FILTER | GL_TEXTURE_MAG_FILTER | GL_LINEAR
  | GL_RGB8 | GL_RGB | GL_RGBA8 | GL_RGBA | GL_UNSIGNED_BYTE

text \<open>
  Every call that leaves the scene manager (shader manager, mesh library, OpenGL, stb_image)
  is recorded, in program order, with its arguments. \<^verbatim>\<open>glActiveTexture i\<close> stands for
  \<^verbatim>\<open>glActiveTexture(GL_TEXTURE0 + i)\<close>, \<^verbatim>\<open>glGenTextures n\<close> for a call that stored the
  name \<open>n\<close>, \<open>DrawCylinderMesh\<close> for the call without arguments and
  \<open>DrawCylinderMesh3\<close> for the call with its three flags. Console output is not recorded.
\<close>

datatype call =
    setMat4Value string mat4
  | setIntValue string int
  | setBoolValue string bool
  | setFloatValue string float
  | setVec2Value string vec2
  | setVec3Value string vec3
  | setVec4Value string vec4
  | setSampler2DValue string int
  | stbi_set_flip_vertically_on_load bool
  | stbi_image_free
  | glGenTextures GLuint
  | glBindTexture GLenum GLuint
  | glTexParameteri GLenum GLenum GLenum
  | glTexImage2D GLenum int GLenum int int int GLenum GLenum
  | glGenerateMipmap GLenum
  | glActiveTexture int
  | LoadPlaneMesh | LoadSphereMesh | LoadCylinderMesh | LoadTorusMesh | LoadBoxMesh
  | LoadTaperedCylinderMesh
  | DrawPlaneMesh | DrawBoxMesh | DrawSphereMesh | DrawHalfSphereMesh | DrawTorusMesh
  | DrawTaperedCylinderMesh
  | DrawCylinderMesh
  | DrawCylinderMesh3 bool bool bool
  | DrawBoxMeshSide BoxSide

datatype pointer = NULL | ShaderManager

text \<open>
  The object: \<open>m_textureIDs\<close> is the fixed array of the header (its length is the declared
  size), \<open>m_loadedTextures\<close> the count, \<open>m_objectMaterials\<close> the vector. \<open>trace\<close> is
  the record of the calls made so far.
\<close>

record SceneManager =
  m_pShaderManager :: pointer
  m_textureIDs :: "TEXTURE_INFO list"
  m_loadedTextures :: int
  m_objectMaterials :: "OBJECT_MATERIAL list"
  trace :: "call list"

text \<open>
  What C++ leaves undefined is a fault of the model: an array access outside the array, a
  call through a null pointer.
\<close>

datatype fault = OutOfBounds | NullDereference

definition emit :: "call list \<Rightarrow> SceneManager \<Rightarrow> SceneManager" where
  "emit cs s = s\<lparr>trace := trace s @ cs\<rparr>"

definition g_ModelName :: string where "g_ModelName = ''model''"
definition g_ColorValueName :: string where "g_ColorValueName = ''objectColor''"
definition g_TextureValueName :: string where "g_TextureValueName = ''objectTexture''"
definition g_UseTextureName :: string where "g_UseTextureName = ''bUseTexture''"
definition g_UseLightingName :: string where "g_UseLightingName = ''bUseLighting''"

definition in_array :: "int \<Rightarrow> 'a list \<Rightarrow> bool" where
  "in_array i xs = (0 \<le> i \<and> i < int (length xs))"

section \<open>Texture lookup\<close>

text \<open>
  The loop of \<^verbatim>\<open>FindTextureID\<close>, on its three variables. \<^verbatim>\<open>textureID = m_textureIDs[index].ID\<close>
  converts a \<^verbatim>\<open>GLuint\<close> to \<^verbatim>\<open>int\<close>: the two's complement reading \<open>sint\<close>.
\<close>

function FindTextureID_while ::
  "string \<Rightarrow> SceneManager \<Rightarrow> int \<Rightarrow> int \<Rightarrow> bool \<Rightarrow> fault + int" where
  "FindTextureID_while tg s textureID index bFound =
     (if index < m_loadedTextures s \<and> bFound = False then
        (if \<not> in_array index (m_textureIDs s) then Inl OutOfBounds
         else if TEXTURE_INFO.tag (m_textureIDs s ! nat index) = tg
           then FindTextureID_while tg s (sint (ID (m_textureIDs s ! nat index))) index True
           else FindTextureID_while tg s textureID (index + 1) bFound)
      else Inr textureID)"
  by pat_completeness auto
termination
  by (relation "measure (\<lambda>(tg, s, textureID, index, bFound).
        if bFound then 0 else 1 + nat (m_loadedTextures s - index))") auto

declare FindTextureID_while.simps [simp del]

definition FindTextureID :: "string \<Rightarrow> SceneManager \<Rightarrow> fault + int" where
  "FindTextureID tg s = FindTextureID_while tg s (-1) 0 False"

function FindTextureSlot_while ::
  "string \<Rightarrow> SceneManager \<Rightarrow> int \<Rightarrow> int \<Rightarrow> bool \<Rightarrow> fault + int" where
  "FindTextureSlot_while tg s textureSlot index bFound =
     (if index < m_loadedTextures s \<and> bFound = False then
        (if \<not> in_array index (m_textureIDs s) then Inl OutOfBounds
         else if TEXTURE_INFO.tag (m_textureIDs s ! nat index) = tg
           then FindTextureSlot_while tg s index index True
           else FindTextureSlot_while tg s textureSlot (index + 1) bFound)
      else Inr textureSlot)"
  by pat_completeness auto
termination
  by (relation "measure (\<lambda>(tg, s, textureSlot, index, bFound).
        if bFound then 0 else 1 + nat (m_loadedTextures s - index))") auto

declare FindTextureSlot_while.simps [simp del]

definition FindTextureSlot :: "string \<Rightarrow> SceneManager \<Rightarrow> fault + int" where
  "FindTextureSlot tg s = FindTextureSlot_while tg s (-1) 0 False"

section \<open>Material lookup\<close>

text \<open>
  The loop of \<^verbatim>\<open>FindMaterial\<close>. \<^verbatim>\<open>index < m_objectMaterials.size()\<close> compares an \<^verbatim>\<open>int\<close>
  with an unsigned size: a negative index would compare as a huge value, hence \<open>0 \<le> index\<close>.
  The reference parameter \<^verbatim>\<open>material\<close> is passed in and returned.
\<close>

function FindMaterial_while ::
  "string \<Rightarrow> SceneManager \<Rightarrow> OBJECT_MATERIAL \<Rightarrow> int \<Rightarrow> bool \<Rightarrow> OBJECT_MATERIAL" where
  "FindMaterial_while tg s material index bFound =
     (if (0 \<le> index \<and> index < int (length (m_objectMaterials s))) \<and> bFound = False then
        (if OBJECT_MATERIAL.tag (m_objectMaterials s ! nat index) = tg
           then FindMaterial_while tg s
                  (material\<lparr>diffuseColor := diffuseColor (m_objectMaterials s ! nat index),
                     specularColor := specularColor (m_objectMaterials s ! nat index),
                     shininess := shininess (m_objectMaterials s ! nat index)\<rparr>)
                  index True
           else FindMaterial_while tg s material (index + 1) bFound)
      else material)"
  by pat_completeness auto
termination
  by (relation "measure (\<lambda>(tg, s, material, index, bFound).
        if bFound then 0 else 1 + nat (int (length (m_objectMaterials s)) - index))") auto

declare FindMaterial_while.simps [simp del]

definition FindMaterial ::
  "string \<Rightarrow> OBJECT_MATERIAL \<Rightarrow> SceneManager \<Rightarrow> bool \<times> OBJECT_MATERIAL" where
  "FindMaterial tg material s =
     (if length (m_objectMaterials s) = 0 then (False, material)
      else (True, FindMaterial_while tg s material 0 False))"

section \<open>Shader setters\<close>

text \<open>
  glm is an external library: its functions are parameters. \<open>glm_mul\<close> is \<^verbatim>\<open>operator*\<close> on
  \<^verbatim>\<open>glm::mat4\<close>.
\<close>

record glm =
  glm_scale :: "vec3 \<Rightarrow> mat4"
  glm_rotate :: "float \<Rightarrow> vec3 \<Rightarrow> mat4"
  glm_translate :: "vec3 \<Rightarrow> mat4"
  glm_radians :: "float \<Rightarrow> float"
  glm_mul :: "mat4 \<Rightarrow> mat4 \<Rightarrow> mat4"

definition SetTransformations ::
  "glm \<Rightarrow> vec3 \<Rightarrow> float \<Rightarrow> float \<Rightarrow> float \<Rightarrow> vec3 \<Rightarrow> SceneManager \<Rightarrow> SceneManager" where
  "SetTransformations g scaleXYZ XrotationDegrees YrotationDegrees ZrotationDegrees positionXYZ s =
     (let scale = glm_scale g scaleXYZ;
          rotationX = glm_rotate g (glm_radians g XrotationDegrees) (vec3 1 0 0);
          rotationY = glm_rotate g (glm_radians g YrotationDegrees) (vec3 0 1 0);
          rotationZ = glm_rotate g (glm_radians g ZrotationDegrees) (vec3 0 0 1);
          translation = glm_translate g positionXYZ;
          modelView =
            glm_mul g (glm_mul g (glm_mul g (glm_mul g translation rotationZ) rotationY) rotationX)
              scale
      in if NULL \<noteq> m_pShaderManager s then emit [setMat4Value g_ModelName modelView] s else s)"

text \<open>\<^verbatim>\<open>setIntValue(g_UseTextureName, false)\<close> passes the \<^verbatim>\<open>bool\<close> as the \<^verbatim>\<open>int\<close> 0, \<^verbatim>\<open>true\<close> as 1.\<close>

definition SetShaderColor ::
  "float \<Rightarrow> float \<Rightarrow> float \<Rightarrow> float \<Rightarrow> SceneManager \<Rightarrow> SceneManager" where
  "SetShaderColor redColorValue greenColorValue blueColorValue alphaValue s =
     (let currentColor = vec4 redColorValue greenColorValue blueColorValue alphaValue
      in if NULL \<noteq> m_pShaderManager s
         then emit [setIntValue g_UseTextureName 0, setVec4Value g_ColorValueName currentColor] s
         else s)"

definition SetShaderTexture :: "string \<Rightarrow> SceneManager \<Rightarrow> fault + SceneManager" where
  "SetShaderTexture textureTag s =
     (if NULL \<noteq> m_pShaderManager s then
        (let s1 = emit [setIntValue g_UseTextureName 1] s
         in case FindTextureSlot textureTag s1 of
              Inl e \<Rightarrow> Inl e
            | Inr textureID \<Rightarrow> Inr (emit [setSampler2DValue g_TextureValueName textureID] s1))
      else Inr s)"

definition SetTextureUVScale :: "float \<Rightarrow> float \<Rightarrow> SceneManager \<Rightarrow> SceneManager" where
  "SetTextureUVScale u v s =
     (if NULL \<noteq> m_pShaderManager s then emit [setVec2Value ''UVscale'' (vec2 u v)] s else s)"

text \<open>
  \<^verbatim>\<open>SetShaderMaterial\<close> declares \<^verbatim>\<open>OBJECT_MATERIAL material;\<close> without initialising it:
  \<open>uninit\<close> is whatever the local variable holds. The shader manager is called without a
  null check.
\<close>

definition SetShaderMaterial ::
  "OBJECT_MATERIAL \<Rightarrow> string \<Rightarrow> SceneManager \<Rightarrow> fault + SceneManager" where
  "SetShaderMaterial uninit materialTag s =
     (if length (m_objectMaterials s) > 0 then
        (case FindMaterial materialTag uninit s of
           (bReturn, material) \<Rightarrow>
             if bReturn = True then
               (if m_pShaderManager s = NULL then Inl NullDereference
                else Inr (emit [setVec3Value ''material.diffuseColor'' (diffuseColor material),
                                setVec3Value ''material.specularColor'' (specularColor material),
                                setFloatValue ''material.shininess'' (shininess material)] s))
             else Inr s)
      else Inr s)"

section \<open>Texture registry\<close>

text \<open>
  The file system and the OpenGL driver are the platform: \<open>stbi_load\<close> gives what decoding
  the named file yields (\<open>None\<close> for a null pointer), \<open>glGenTextures_name\<close> the texture
  name the driver hands out after the calls made so far.
\<close>

record stb_image =
  width :: int
  height :: int
  colorChannels :: int

record platform =
  stbi_load :: "string \<Rightarrow> stb_image option"
  glGenTextures_name :: "call list \<Rightarrow> GLuint"

text \<open>
  The registration at the end of \<^verbatim>\<open>CreateGLTexture\<close>: two field assignments to
  \<^verbatim>\<open>m_textureIDs[m_loadedTextures]\<close>, then the increment. The source has no bound check;
  a write outside the array is the fault \<open>OutOfBounds\<close>.
\<close>

definition register_texture :: "GLuint \<Rightarrow> string \<Rightarrow> SceneManager \<Rightarrow> fault + SceneManager" where
  "register_texture textureID tg s =
     (if \<not> in_array (m_loadedTextures s) (m_textureIDs s) then Inl OutOfBounds
      else Inr (s\<lparr>m_textureIDs :=
                    (m_textureIDs s)[nat (m_loadedTextures s) :=
                       (m_textureIDs s ! nat (m_loadedTextures s))
                         \<lparr>ID := textureID, TEXTURE_INFO.tag := tg\<rparr>],
                  m_loadedTextures := m_loadedTextures s + 1\<rparr>))"

definition CreateGLTexture ::
  "platform \<Rightarrow> string \<Rightarrow> string \<Rightarrow> SceneManager \<Rightarrow> fault + (bool \<times> SceneManager)" where
  "CreateGLTexture p filename tg s =
     (let s0 = emit [stbi_set_flip_vertically_on_load True] s
      in case stbi_load p filename of
           Some img \<Rightarrow>
             (let textureID = glGenTextures_name p (trace s0);
                  s1 = emit [glGenTextures textureID,
                             glBindTexture GL_TEXTURE_2D textureID,
                             glTexParameteri GL_TEXTURE_2D GL_TEXTURE_WRAP_S GL_REPEAT,
                             glTexParameteri GL_TEXTURE_2D GL_TEXTURE_WRAP_T GL_REPEAT,
                             glTexParameteri GL_TEXTURE_2D GL_TEXTURE_MIN_FILTER GL_LINEAR,
                             glTexParameteri GL_TEXTURE_2D GL_TEXTURE_MAG_FILTER GL_LINEAR] s0;
                  registered = (\<lambda>s2.
                    case register_texture textureID tg
                           (emit [glGenerateMipmap GL_TEXTURE_2D, stbi_image_free,
                                  glBindTexture GL_TEXTURE_2D 0] s2) of
                      Inl e \<Rightarrow> Inl e
                    | Inr s3 \<Rightarrow> Inr (True, s3))
              in if colorChannels img = 3 then
                   registered (emit [glTexImage2D GL_TEXTURE_2D 0 GL_RGB8 (width img)
                                       (height img) 0 GL_RGB GL_UNSIGNED_BYTE] s1)
                 else if colorChannels img = 4 then
                   registered (emit [glTexImage2D GL_TEXTURE_2D 0 GL_RGBA8 (width img)
                                       (height img) 0 GL_RGBA GL_UNSIGNED_BYTE] s1)
                 else Inr (False, s1))
         | None \<Rightarrow> Inr (False, s0))"

function BindGLTextures_for :: "SceneManager \<Rightarrow> int \<Rightarrow> fault + SceneManager" where
  "BindGLTextures_for s i =
     (if i < m_loadedTextures s then
        (if \<not> in_array i (m_textureIDs s) then Inl OutOfBounds
         else BindGLTextures_for
                (emit [glActiveTexture i, glBindTexture GL_TEXTURE_2D (ID (m_textureIDs s ! nat i))] s)
                (i + 1))
      else Inr s)"
  by pat_completeness auto
termination
  by (relation "measure (\<lambda>(s, i). nat (m_loadedTextures s - i))") (auto simp: emit_def)

declare BindGLTextures_for.simps [simp del]

definition BindGLTextures :: "SceneManager \<Rightarrow> fault + SceneManager" where
  "BindGLTextures s = BindGLTextures_for s 0"

section \<open>The scene script\<close>

text \<open>
  A method body that is a straight sequence of calls is the list of its calls, run in order
  and stopped by the first fault. \<open>total\<close> lifts a call that has no fault;
  \<open>result_unused\<close> is a call whose \<^verbatim>\<open>bool\<close> result is assigned to \<^verbatim>\<open>bReturn\<close> and never
  read. \<open>m_basicMeshes c\<close> is the call \<open>c\<close> on the mesh library, which the constructor
  allocates.
\<close>

definition total :: "(SceneManager \<Rightarrow> SceneManager) \<Rightarrow> SceneManager \<Rightarrow> fault + SceneManager" where
  "total f s = Inr (f s)"

fun seq :: "(SceneManager \<Rightarrow> fault + SceneManager) list \<Rightarrow> SceneManager \<Rightarrow> fault + SceneManager" where
  "seq [] s = Inr s"
| "seq (f # fs) s = (case f s of Inl e \<Rightarrow> Inl e | Inr s' \<Rightarrow> seq fs s')"

definition result_unused ::
  "(SceneManager \<Rightarrow> fault + (bool \<times> SceneManager)) \<Rightarrow> SceneManager \<Rightarrow> fault + SceneManager" where
  "result_unused f s = (case f s of Inl e \<Rightarrow> Inl e | Inr (bReturn, s') \<Rightarrow> Inr s')"

definition m_basicMeshes :: "call \<Rightarrow> SceneManager \<Rightarrow> SceneManager" where
  "m_basicMeshes c s = emit [c] s"

definition LoadSceneTextures :: "platform \<Rightarrow> SceneManager \<Rightarrow> fault + SceneManager" where
  "LoadSceneTextures p =
     seq [
      result_unused (CreateGLTexture p ''textures/black_marble.jpg'' ''box''),
      result_unused (CreateGLTexture p ''textures/cement.jpg'' ''potBody''),
      result_unused (CreateGLTexture p ''textures/cement.jpg'' ''potRim''),
      result_unused (CreateGLTexture p ''textures/cement.jpg'' ''potSphereBottom''),
      result_unused (CreateGLTexture p ''textures/dirt.jpg'' ''potDirt''),
      result_unused (CreateGLTexture p ''textures/bricks_white_seamless.jpg'' ''backsplash''),
      result_unused (CreateGLTexture p ''textures/marble_light_seamless.jpg'' ''counter''),
      result_unused (CreateGLTexture p ''textures/green_texture.jpg'' ''stem''),
      result_unused (CreateGLTexture p ''textures/green_texture.jpg'' ''leaf''),
      result_unused (CreateGLTexture p ''textures/metal.jpg'' ''metal''),
      result_unused (CreateGLTexture p ''textures/plastic_dark_seamless.png'' ''plastic''),
      BindGLTextures]"

definition push_back :: "OBJECT_MATERIAL \<Rightarrow> SceneManager \<Rightarrow> SceneManager" where
  "push_back m s = s\<lparr>m_objectMaterials := m_objectMaterials s @ [m]\<rparr>"

definition cementMaterial :: OBJECT_MATERIAL where
  "cementMaterial = \<lparr>diffuseColor = vec3 0.5 0.5 0.5, specularColor = vec3 0.4 0.4 0.4,
     shininess = 0.5, OBJECT_MATERIAL.tag = ''cement''\<rparr>"

definition tileMaterial :: OBJECT_MATERIAL where
  "tileMaterial = \<lparr>diffuseColor = vec3 0.3 0.2 0.1, specularColor = vec3 0.4 0.5 0.6,
     shininess = 25, OBJECT_MATERIAL.tag = ''tile''\<rparr>"

definition marbleMaterial :: OBJECT_MATERIAL where
  "marbleMaterial = \<lparr>diffuseColor = vec3 0.6 0.6 0.6, specularColor = vec3 0.3 0.4 0.4,
     shininess = 28, OBJECT_MATERIAL.tag = ''marble''\<rparr>"

definition dirtMaterial :: OBJECT_MATERIAL where
  "dirtMaterial = \<lparr>diffuseColor = vec3 0.5 0.5 0.5, specularColor = vec3 0.1 0.1 0.1,
     shininess = 0.3, OBJECT_MATERIAL.tag = ''dirt''\<rparr>"

definition metalMaterial :: OBJECT_MATERIAL where
  "metalMaterial = \<lparr>diffuseColor = vec3 0.5 0.4 0.4, specularColor = vec3 0.4 0.4 0.4,
     shininess = 24, OBJECT_MATERIAL.tag = ''metal''\<rparr>"

definition glassMaterial :: OBJECT_MATERIAL where
  "glassMaterial = \<lparr>diffuseColor = vec3 0.9 0.9 0.9, specularColor = vec3 1 1 1,
     shininess = 95, OBJECT_MATERIAL.tag = ''glass''\<rparr>"

definition plasticMaterial :: OBJECT_MATERIAL where
  "plasticMaterial = \<lparr>diffuseColor = vec3 0.9 0.9 0.9, specularColor = vec3 0.3 0.3 0.3,
     shininess = 20, OBJECT_MATERIAL.tag = ''plastic''\<rparr>"

definition DefineObjectMaterials :: "SceneManager \<Rightarrow> SceneManager" where
  "DefineObjectMaterials s =
     foldl (\<lambda>s m. push_back m s) s
       [cementMaterial, tileMaterial, marbleMaterial, dirtMaterial, metalMaterial,
        glassMaterial, plasticMaterial]"

text \<open>\<^verbatim>\<open>SetupSceneLights\<close> calls the shader manager without a null check.\<close>

definition SetupSceneLights :: "SceneManager \<Rightarrow> fault + SceneManager" where
  "SetupSceneLights s =
     (if m_pShaderManager s = NULL then Inl NullDereference
      else Inr (emit [
        setBoolValue g_UseLightingName True,
        setVec3Value ''directionalLight.direction'' (vec3 1 1 1),
        setVec3Value ''directionalLight.ambient'' (vec3 0.52 0.56 0.5),
        setVec3Value ''directionalLight.diffuse'' (vec3 0.6 0.6 0.6),
        setVec3Value ''directionalLight.specular'' (vec3 0 0 0),
        setBoolValue ''directionalLight.bActive'' True,
        setVec3Value ''pointLights[0].position'' (vec3 (- 4) 8 0),
        setVec3Value ''pointLights[0].ambient'' (vec3 0.05 0.05 0.05),
        setVec3Value ''pointLights[0].diffuse'' (vec3 0.3 0.3 0.3),
        setVec3Value ''pointLights[0].specular'' (vec3 0.1 0.1 0.1),
        setBoolValue ''pointLights[0].bActive'' True,
        setVec3Value ''pointLights[1].position'' (vec3 4 8 0),
        setVec3Value ''pointLights[1].ambient'' (vec3 0.05 0.05 0.05),
        setVec3Value ''pointLights[1].diffuse'' (vec3 0.3 0.3 0.3),
        setVec3Value ''pointLights[1].specular'' (vec3 0.1 0.1 0.1),
        setBoolValue ''pointLights[1].bActive'' True,
        setVec3Value ''pointLights[2].position'' (vec3 3.8 5.5 4),
        setVec3Value ''pointLights[2].ambient'' (vec3 0.05 0.05 0.05),
        setVec3Value ''pointLights[2].diffuse'' (vec3 0.2 0.2 0.2),
        setVec3Value ''pointLights[2].specular'' (vec3 0.8 0.8 0.8),
        setBoolValue ''pointLights[2].bActive'' True] s))"

definition PrepareScene :: "platform \<Rightarrow> SceneManager \<Rightarrow> fault + SceneManager" where
  "PrepareScene p =
     seq [
      LoadSceneTextures p,
      total DefineObjectMaterials,
      SetupSceneLights,
      total (m_basicMeshes LoadPlaneMesh),
      total (m_basicMeshes LoadSphereMesh),
      total (m_basicMeshes LoadCylinderMesh),
      total (m_basicMeshes LoadTorusMesh),
      total (m_basicMeshes LoadBoxMesh),
      total (m_basicMeshes LoadTaperedCylinderMesh)]"

text \<open>
  \<^verbatim>\<open>RenderScene\<close>: the local variables \<^verbatim>\<open>scaleXYZ\<close>, \<^verbatim>\<open>XrotationDegrees\<close>, \<^verbatim>\<open>YrotationDegrees\<close>,
  \<^verbatim>\<open>ZrotationDegrees\<close> and \<^verbatim>\<open>positionXYZ\<close> are assigned literals before each call of
  \<^verbatim>\<open>SetTransformations\<close>; the list holds each call with the values the variables have at
  that point. \<open>uninit k\<close> is the indeterminate content of the local \<^verbatim>\<open>material\<close> of the
  \<open>k\<close>-th call of \<^verbatim>\<open>SetShaderMaterial\<close>.
\<close>

definition RenderScene_calls ::
  "glm \<Rightarrow> (nat \<Rightarrow> OBJECT_MATERIAL) \<Rightarrow> (SceneManager \<Rightarrow> fault + SceneManager) list" where
  "RenderScene_calls g uninit = [
      total (SetTransformations g (vec3 20 1 10) 0 0 0 (vec3 0 0 0)),
      SetShaderTexture ''counter'',
      SetShaderMaterial (uninit 0) ''marble'',
      total (m_basicMeshes DrawPlaneMesh),
      total (SetTransformations g (vec3 20 1 10) 90 0 0 (vec3 0 10 (- 10))),
      SetShaderTexture ''backsplash'',
      SetShaderMaterial (uninit 1) ''tile'',
      total (m_basicMeshes DrawPlaneMesh),
      total (SetTransformations g (vec3 15 1 9) 0 0 0 (vec3 3 1 (- 5))),
      SetShaderTexture ''box'',
      SetShaderMaterial (uninit 2) ''marble'',
      total (m_basicMeshes DrawBoxMesh),
      total (SetTransformations g (vec3 3 2 3) 0 0 0 (vec3 6 3 (- 4))),
      SetShaderTexture ''potSphereBottom'',
      SetShaderMaterial (uninit 3) ''cement'',
      total (m_basicMeshes DrawSphereMesh),
      total (SetTransformations g (vec3 3 4 3) 0 0 0 (vec3 6 3 (- 4))),
      SetShaderTexture ''potDirt'',
      SetShaderMaterial (uninit 4) ''dirt'',
      total (m_basicMeshes (DrawCylinderMesh3 True False False)),
      SetShaderTexture ''potBody'',
      SetShaderMaterial (uninit 5) ''cement'',
      total (m_basicMeshes (DrawCylinderMesh3 False True True)),
      total (SetTransformations g (vec3 2.5 2.6 2) 90 0 0 (vec3 6 7 (- 4))),
      SetShaderTexture ''potRim'',
      SetShaderMaterial (uninit 6) ''cement'',
      total (m_basicMeshes DrawTorusMesh),
      total (SetTransformations g (vec3 0.1 8 0.1) 0 0 0 (vec3 6 2 (- 4))),
      SetShaderTexture ''stem'',
      total (m_basicMeshes DrawCylinderMesh),
      total (SetTransformations g (vec3 0.1 8 0.1) 10 0 0 (vec3 6 2 (- 4))),
      SetShaderTexture ''stem'',
      total (m_basicMeshes DrawCylinderMesh),
      total (SetTransformations g (vec3 0.1 8 0.1) 10 0 0 (vec3 6.5 2 (- 4.1))),
      SetShaderTexture ''stem'',
      total (m_basicMeshes DrawCylinderMesh),
      total (SetTransformations g (vec3 0.1 9 0.1) 10 0 0 (vec3 5.8 2 (- 3.7))),
      SetShaderTexture ''stem'',
      total (m_basicMeshes DrawCylinderMesh),
      total (SetTransformations g (vec3 0.1 8 0.1) 10 0 0 (vec3 5.3 2 (- 3.7))),
      SetShaderTexture ''stem'',
      total (m_basicMeshes DrawCylinderMesh),
      total (SetTransformations g (vec3 0.3 0.05 0.1) 90 0 0 (vec3 5.8 7.8 (- 4))),
      SetShaderTexture ''leaf'',
      total (m_basicMeshes DrawHalfSphereMesh),
      total (SetTransformations g (vec3 0.3 0.05 0.1) 90 0 0 (vec3 5.75 9.1 (- 4))),
      SetShaderTexture ''leaf'',
      total (m_basicMeshes DrawHalfSphereMesh),
      total (SetTransformations g (vec3 0.25 0.05 0.1) 90 0 0 (vec3 5.8 8.3 (- 4))),
      SetShaderTexture ''leaf'',
      total (m_basicMeshes DrawHalfSphereMesh),
      total (SetTransformations g (vec3 0.3 0.05 0.1) 90 0 0 (vec3 5.8 9.9 (- 4))),
      SetShaderTexture ''leaf'',
      total (m_basicMeshes DrawHalfSphereMesh),
      total (SetTransformations g (vec3 0.25 0.05 0.1) 90 1 0 (vec3 6.2 9.8 (- 4))),
      SetShaderTexture ''leaf'',
      total (m_basicMeshes DrawHalfSphereMesh),
      total (SetTransformations g (vec3 0.3 0.05 0.1) 90 10 4 (vec3 6.25 8.1 (- 4))),
      SetShaderTexture ''leaf'',
      total (m_basicMeshes DrawHalfSphereMesh),
      total (SetTransformations g (vec3 0.25 0.1 0.1) 90 10 4 (vec3 5.8 8.9 (- 4))),
      SetShaderTexture ''leaf'',
      total (m_basicMeshes DrawHalfSphereMesh),
      total (SetTransformations g (vec3 0.2 0.05 0.1) 90 0 4 (vec3 6.25 8.5 (- 4))),
      SetShaderTexture ''leaf'',
      total (m_basicMeshes DrawHalfSphereMesh),
      total (SetTransformations g (vec3 3 3 3) 0 0 0 (vec3 1 3 (- 3.07))),
      SetShaderTexture ''plastic'',
      SetShaderMaterial (uninit 7) ''plastic'',
      total (m_basicMeshes (DrawBoxMeshSide BoxSide_back)),
      SetShaderTexture ''plastic'',
      SetShaderMaterial (uninit 8) ''plastic'',
      total (m_basicMeshes (DrawBoxMeshSide BoxSide_top)),
      SetShaderTexture ''plastic'',
      SetShaderMaterial (uninit 9) ''plastic'',
      total (m_basicMeshes (DrawBoxMeshSide BoxSide_bottom)),
      SetShaderTexture ''plastic'',
      SetShaderMaterial (uninit 10) ''plastic'',
      total (m_basicMeshes (DrawBoxMeshSide BoxSide_left)),
      SetShaderTexture ''plastic'',
      SetShaderMaterial (uninit 11) ''plastic'',
      total (m_basicMeshes (DrawBoxMeshSide BoxSide_right)),
      total (SetTransformations g (vec3 3 3 3) 0 0 0 (vec3 1 3 (- 3.6))),
      total (SetShaderColor 1 1 1 1),
      SetShaderMaterial (uninit 12) ''plastic'',
      total (m_basicMeshes (DrawBoxMeshSide BoxSide_front)),
      SetShaderTexture ''plastic'',
      SetShaderMaterial (uninit 13) ''plastic'',
      total (m_basicMeshes DrawBoxMesh),
      total (SetTransformations g (vec3 0.2 0.1 0.2) 90 0 0 (vec3 1 3 (- 2))),
      SetShaderTexture ''plastic'',
      total (m_basicMeshes DrawHalfSphereMesh),
      total (SetTransformations g (vec3 0.05 1.2 0.05) 0 0 0 (vec3 1 3.1 (- 2))),
      SetShaderTexture ''plastic'',
      total (m_basicMeshes DrawCylinderMesh),
      total (SetTransformations g (vec3 0.05 1.1 0.05) 90 90 0 (vec3 1 3 (- 2))),
      SetShaderTexture ''plastic'',
      total (m_basicMeshes DrawCylinderMesh),
      total (SetTransformations g (vec3 0.5 1 0.5) 0 0 0 (vec3 8.7 1.5 (- 1.5))),
      total (SetShaderColor 1 1 1 0.3),
      SetShaderMaterial (uninit 14) ''glass'',
      total (m_basicMeshes DrawCylinderMesh),
      total (SetTransformations g (vec3 0.5 0.5 0.5) 0 0 0 (vec3 8.7 2.5 (- 1.5))),
      total (SetShaderColor 1 1 1 0.3),
      SetShaderMaterial (uninit 15) ''glass'',
      total (m_basicMeshes DrawTaperedCylinderMesh),
      total (SetTransformations g (vec3 0.3 0.2 0.2) 0 0 0 (vec3 8.7 3 (- 1.5))),
      SetShaderTexture ''metal'',
      SetShaderMaterial (uninit 16) ''metal'',
      total (m_basicMeshes DrawCylinderMesh),
      total (SetTransformations g (vec3 0.3 0.2 0.2) 0 0 0 (vec3 8.7 3.2 (- 1.5))),
      SetShaderTexture ''metal'',
      SetShaderMaterial (uninit 17) ''metal'',
      total (m_basicMeshes DrawHalfSphereMesh),
      total (SetTransformations g (vec3 0.5 1 0.5) 0 0 0 (vec3 9.9 1.5 (- 1.5))),
      total (SetShaderColor 1 1 1 0.3),
      SetShaderMaterial (uninit 18) ''glass'',
      total (m_basicMeshes DrawCylinderMesh),
      total (SetTransformations g (vec3 0.5 0.5 0.5) 0 0 0 (vec3 9.9 2.5 (- 1.5))),
      total (SetShaderColor 1 1 1 0.3),
      SetShaderMaterial (uninit 19) ''glass'',
      total (m_basicMeshes DrawTaperedCylinderMesh),
      total (SetTransformations g (vec3 0.3 0.2 0.2) 0 0 0 (vec3 9.9 3 (- 1.5))),
      SetShaderTexture ''metal'',
      SetShaderMaterial (uninit 20) ''metal'',
      total (m_basicMeshes DrawCylinderMesh),
      total (SetTransformations g (vec3 0.3 0.2 0.2) 0 0 0 (vec3 9.9 3.2 (- 1.5))),
      SetShaderTexture ''metal'',
      SetShaderMaterial (uninit 21) ''metal'',
      total (m_basicMeshes DrawHalfSphereMesh)]"

definition RenderScene ::
  "glm \<Rightarrow> (nat \<Rightarrow> OBJECT_MATERIAL) \<Rightarrow> SceneManager \<Rightarrow> fault + SceneManager" where
  "RenderScene g uninit = seq (RenderScene_calls g uninit)"

section \<open>Notions used by the properties\<close>

text \<open>The registered textures are the first \<open>m_loadedTextures\<close> elements of the array.\<close>

definition registered :: "SceneManager \<Rightarrow> TEXTURE_INFO list" where
  "registered s = take (nat (m_loadedTextures s)) (m_textureIDs s)"

definition registered_tags :: "SceneManager \<Rightarrow> string list" where
  "registered_tags s = map TEXTURE_INFO.tag (registered s)"

definition material_tags :: "SceneManager \<Rightarrow> string list" where
  "material_tags s = map OBJECT_MATERIAL.tag (m_objectMaterials s)"

text \<open>The count does not exceed the array: the lookups then stay inside it.\<close>

definition count_in_array :: "SceneManager \<Rightarrow> bool" where
  "count_in_array s = (m_loadedTextures s \<le> int (length (m_textureIDs s)))"

text \<open>
  The value of a shader uniform after a trace: the last setter call on that name. The
  setters belong to the external shader manager; each stores its argument under the name.
\<close>

fun uniform_name :: "call \<Rightarrow> string option" where
  "uniform_name (setMat4Value n v) = Some n"
| "uniform_name (setIntValue n v) = Some n"
| "uniform_name (setBoolValue n v) = Some n"
| "uniform_name (setFloatValue n v) = Some n"
| "uniform_name (setVec2Value n v) = Some n"
| "uniform_name (setVec3Value n v) = Some n"
| "uniform_name (setVec4Value n v) = Some n"
| "uniform_name (setSampler2DValue n v) = Some n"
| "uniform_name c = None"

fun uniform :: "string \<Rightarrow> call list \<Rightarrow> call option" where
  "uniform n [] = None"
| "uniform n (c # cs) =
     (case uniform n cs of
        Some c' \<Rightarrow> Some c'
      | None \<Rightarrow> if uniform_name c = Some n then Some c else None)"

text \<open>
  A run of \<^verbatim>\<open>CreateGLTexture\<close> calls (file name, tag), each of which returns \<^verbatim>\<open>true\<close>:
  \<open>Some\<close> of the final object, \<open>None\<close> as soon as one call returns \<^verbatim>\<open>false\<close> or faults.
\<close>

fun CreateGLTexture_all ::
  "platform \<Rightarrow> (string \<times> string) list \<Rightarrow> SceneManager \<Rightarrow> SceneManager option" where
  "CreateGLTexture_all p [] s = Some s"
| "CreateGLTexture_all p ((filename, tg) # cs) s =
     (case CreateGLTexture p filename tg s of
        Inr (True, s') \<Rightarrow> CreateGLTexture_all p cs s'
      | _ \<Rightarrow> None)"

text \<open>
  Ready to render: a shader manager is attached, the count is within the array, and the
  seven material tags that \<^verbatim>\<open>RenderScene\<close> names are defined.
\<close>

definition prepared :: "SceneManager \<Rightarrow> bool" where
  "prepared s =
     (m_pShaderManager s \<noteq> NULL \<and> count_in_array s \<and>
      set [''cement'', ''tile'', ''marble'', ''dirt'', ''metal'', ''glass'', ''plastic'']
        \<subseteq> set (material_tags s))"

text \<open>
  Two calls have the same output when, on every prepared object, both succeed, change
  nothing but the trace, and append the same calls whatever the trace was before.
\<close>

definition same_output ::
  "(SceneManager \<Rightarrow> fault + SceneManager) \<Rightarrow> (SceneManager \<Rightarrow> fault + SceneManager) \<Rightarrow> bool" where
  "same_output f f' =
     (\<forall>s. prepared s \<longrightarrow>
        (\<exists>t. \<forall>tr. f (s\<lparr>trace := tr\<rparr>) = Inr (s\<lparr>trace := tr @ t\<rparr>) \<and>
                  f' (s\<lparr>trace := tr\<rparr>) = Inr (s\<lparr>trace := tr @ t\<rparr>)))"

subsection \<open>glm in exact arithmetic\<close>

text \<open>
  The matrices that glm documents for \<^verbatim>\<open>scale\<close>, \<^verbatim>\<open>rotate\<close>, \<^verbatim>\<open>translate\<close>, \<^verbatim>\<open>radians\<close> and the
  matrix product, computed over the real numbers without rounding. It is one instance of
  the parameter \<open>glm\<close>, used to show that the laws assumed of the library can be met and to
  read the composed matrix as a map on points.
\<close>

definition mat4_identity :: mat4 where
  "mat4_identity = mat4 (vec4 1 0 0 0) (vec4 0 1 0 0) (vec4 0 0 1 0) (vec4 0 0 0 1)"

fun vec4_add :: "vec4 \<Rightarrow> vec4 \<Rightarrow> vec4" where
  "vec4_add (vec4 a b c d) (vec4 a' b' c' d') = vec4 (a + a') (b + b') (c + c') (d + d')"

fun vec4_smult :: "vec4 \<Rightarrow> float \<Rightarrow> vec4" where
  "vec4_smult (vec4 a b c d) k = vec4 (a * k) (b * k) (c * k) (d * k)"

fun mat4_vec4 :: "mat4 \<Rightarrow> vec4 \<Rightarrow> vec4" where
  "mat4_vec4 (mat4 c0 c1 c2 c3) (vec4 x y z w) =
     vec4_add (vec4_add (vec4_add (vec4_smult c0 x) (vec4_smult c1 y)) (vec4_smult c2 z))
       (vec4_smult c3 w)"

fun exact_mul :: "mat4 \<Rightarrow> mat4 \<Rightarrow> mat4" where
  "exact_mul m (mat4 c0 c1 c2 c3) =
     mat4 (mat4_vec4 m c0) (mat4_vec4 m c1) (mat4_vec4 m c2) (mat4_vec4 m c3)"

fun exact_scale :: "vec3 \<Rightarrow> mat4" where
  "exact_scale (vec3 x y z) = mat4 (vec4 x 0 0 0) (vec4 0 y 0 0) (vec4 0 0 z 0) (vec4 0 0 0 1)"

fun exact_translate :: "vec3 \<Rightarrow> mat4" where
  "exact_translate (vec3 x y z) =
     mat4 (vec4 1 0 0 0) (vec4 0 1 0 0) (vec4 0 0 1 0) (vec4 x y z 1)"

fun exact_rotate :: "float \<Rightarrow> vec3 \<Rightarrow> mat4" where
  "exact_rotate a (vec3 x y z) =
     (let c = cos a; s = sin a; n = sqrt (x * x + y * y + z * z);
          ax = x / n; ay = y / n; az = z / n;
          tx = (1 - c) * ax; ty = (1 - c) * ay; tz = (1 - c) * az
      in mat4 (vec4 (c + tx * ax) (tx * ay + s * az) (tx * az - s * ay) 0)
              (vec4 (ty * ax - s * az) (c + ty * ay) (ty * az + s * ax) 0)
              (vec4 (tz * ax + s * ay) (tz * ay - s * ax) (c + tz * az) 0)
              (vec4 0 0 0 1))"

definition exact_radians :: "float \<Rightarrow> float" where
  "exact_radians d = d * pi / 180"

definition glm_exact :: glm where
  "glm_exact = \<lparr>glm_scale = exact_scale, glm_rotate = exact_rotate,
     glm_translate = exact_translate, glm_radians = exact_radians, glm_mul = exact_mul\<rparr>"

text \<open>
  The laws of the library that make scale \<open>(1,1,1)\<close> and rotation by 0 degrees neutral for
  the translation to \<open>p\<close>.
\<close>

definition glm_neutral :: "glm \<Rightarrow> vec3 \<Rightarrow> bool" where
  "glm_neutral g p =
     (glm_scale g (vec3 1 1 1) = mat4_identity \<and>
      glm_rotate g (glm_radians g 0) (vec3 1 0 0) = mat4_identity \<and>
      glm_rotate g (glm_radians g 0) (vec3 0 1 0) = mat4_identity \<and>
      glm_rotate g (glm_radians g 0) (vec3 0 0 1) = mat4_identity \<and>
      glm_mul g (glm_translate g p) mat4_identity = glm_translate g p)"

subsection \<open>Example objects\<close>

text \<open>
  A manager with an array of 16 entries, no texture and no material registered, and a shader
  manager attached; a platform on which every file decodes to an RGB image and the driver
  numbers the textures by the length of the trace; the content of an uninitialised
  material; a platform whose files have two channels, one file missing.
\<close>

definition fresh_scene :: SceneManager where
  "fresh_scene = \<lparr>m_pShaderManager = ShaderManager,
     m_textureIDs = replicate 16 \<lparr>ID = 0, TEXTURE_INFO.tag = []\<rparr>,
     m_loadedTextures = 0, m_objectMaterials = [], trace = []\<rparr>"

definition rgb_files :: platform where
  "rgb_files = \<lparr>stbi_load = (\<lambda>filename. Some \<lparr>width = 64, height = 64, colorChannels = 3\<rparr>),
     glGenTextures_name = (\<lambda>tr. of_nat (length tr))\<rparr>"

definition junk_material :: OBJECT_MATERIAL where
  "junk_material = \<lparr>diffuseColor = vec3 7 7 7, specularColor = vec3 8 8 8, shininess = 9,
     OBJECT_MATERIAL.tag = ''junk''\<rparr>"

definition two_channel_files :: platform where
  "two_channel_files =
     \<lparr>stbi_load = (\<lambda>filename. if filename = ''textures/missing.jpg'' then None
                    else Some \<lparr>width = 64, height = 64, colorChannels = 2\<rparr>),
      glGenTextures_name = (\<lambda>tr. 1)\<rparr>"

text \<open>
  Sixteen textures registered: in the array of 16 entries, and in an array of 32. One
  texture registered whose name is the largest \<^verbatim>\<open>GLuint\<close>.
\<close>

definition full_scene :: SceneManager where
  "full_scene = fresh_scene\<lparr>m_loadedTextures := 16\<rparr>"

definition roomy_scene :: SceneManager where
  "roomy_scene = fresh_scene\<lparr>m_textureIDs := replicate 32 \<lparr>ID = 0, TEXTURE_INFO.tag = []\<rparr>,
     m_loadedTextures := 16\<rparr>"

definition sentinel_scene :: SceneManager where
  "sentinel_scene = fresh_scene\<lparr>m_textureIDs :=
       (m_textureIDs fresh_scene)[0 := \<lparr>ID = 0xFFFFFFFF, TEXTURE_INFO.tag = ''box''\<rparr>],
     m_loadedTextures := 1\<rparr>"

definition max_name_driver :: platform where
  "max_name_driver = \<lparr>stbi_load = (\<lambda>filename. Some \<lparr>width = 64, height = 64, colorChannels = 3\<rparr>),
     glGenTextures_name = (\<lambda>tr. 0xFFFFFFFF)\<rparr>"

section \<open>Properties\<close>

subsection \<open>Frame lemmas for the trace\<close>

lemma emit_fields [simp]:
  "m_pShaderManager (emit cs s) = m_pShaderManager s"
  "m_textureIDs (emit cs s) = m_textureIDs s"
  "m_loadedTextures (emit cs s) = m_loadedTextures s"
  "m_objectMaterials (emit cs s) = m_objectMaterials s"
  "trace (emit cs s) = trace s @ cs"
  by (simp_all add: emit_def)

lemma emit_emit: "emit cs (emit bs s) = emit (bs @ cs) s"
  by (simp add: emit_def)

lemma registered_emit [simp]: "registered (emit cs s) = registered s"
  by (simp add: registered_def)

lemma registered_tags_emit [simp]: "registered_tags (emit cs s) = registered_tags s"
  by (simp add: registered_tags_def)

lemma count_in_array_emit [simp]: "count_in_array (emit cs s) = count_in_array s"
  by (simp add: count_in_array_def)

lemma length_registered_tags:
  "count_in_array s \<Longrightarrow> length (registered_tags s) = nat (m_loadedTextures s)"
  by (auto simp: registered_tags_def registered_def count_in_array_def)

lemma registered_tags_nth:
  "0 \<le> index \<Longrightarrow> index < m_loadedTextures s \<Longrightarrow> count_in_array s \<Longrightarrow>
   registered_tags s ! nat index = TEXTURE_INFO.tag (m_textureIDs s ! nat index)"
  by (simp add: registered_tags_def registered_def count_in_array_def)

subsection \<open>Texture lookup\<close>

lemma FindTextureSlot_while_found:
  "FindTextureSlot_while tg s textureSlot index True = Inr textureSlot"
  by (subst FindTextureSlot_while.simps) simp

lemma FindTextureSlot_while_scan:
  "0 \<le> index \<Longrightarrow> count_in_array s \<Longrightarrow>
   FindTextureSlot_while tg s textureSlot index bFound =
     Inr (if bFound = False \<and> tg \<in> set (drop (nat index) (registered_tags s))
          then index + int (length (takeWhile (\<lambda>t. t \<noteq> tg) (drop (nat index) (registered_tags s))))
          else textureSlot)"
proof (induction tg s textureSlot index bFound rule: FindTextureSlot_while.induct)
  case (1 tg s textureSlot index bFound)
  let ?tags = "registered_tags s"
  show ?case
  proof (cases "index < m_loadedTextures s \<and> bFound = False")
    case False
    then have "bFound \<or> drop (nat index) ?tags = []"
      using 1(4) by (auto simp: length_registered_tags)
    then show ?thesis using False
      by (subst FindTextureSlot_while.simps) auto
  next
    case True
    then have idx: "index < m_loadedTextures s" and nf: "bFound = False" by simp_all
    have ia: "in_array index (m_textureIDs s)"
      using 1(3,4) idx by (simp add: in_array_def count_in_array_def)
    have lt: "nat index < length ?tags"
      using 1(3,4) idx by (simp add: length_registered_tags)
    have dr: "drop (nat index) ?tags =
        TEXTURE_INFO.tag (m_textureIDs s ! nat index) # drop (nat (index + 1)) ?tags"
      using Cons_nth_drop_Suc[OF lt] registered_tags_nth[OF 1(3) idx 1(4)] 1(3)
      by (simp add: nat_add_distrib)
    show ?thesis
    proof (cases "TEXTURE_INFO.tag (m_textureIDs s ! nat index) = tg")
      case True
      then show ?thesis using idx nf ia dr
        by (subst FindTextureSlot_while.simps) (simp add: FindTextureSlot_while_found)
    next
      case neq: False
      have "0 \<le> index + 1" using 1(3) by simp
      from 1(2)[OF True _ neq this 1(4)] ia
      have "FindTextureSlot_while tg s textureSlot (index + 1) bFound =
          Inr (if bFound = False \<and> tg \<in> set (drop (nat (index + 1)) ?tags)
               then index + 1 + int (length (takeWhile (\<lambda>t. t \<noteq> tg) (drop (nat (index + 1)) ?tags)))
               else textureSlot)"
        by simp
      then show ?thesis using idx nf ia neq dr
        by (subst FindTextureSlot_while.simps) auto
    qed
  qed
qed

lemma FindTextureSlot_scan:
  "count_in_array s \<Longrightarrow>
   FindTextureSlot tg s =
     Inr (if tg \<in> set (registered_tags s)
          then int (length (takeWhile (\<lambda>t. t \<noteq> tg) (registered_tags s))) else - 1)"
  using FindTextureSlot_while_scan[of 0 s tg "- 1" False]
  by (simp add: FindTextureSlot_def)

lemma FindTextureID_while_found:
  "FindTextureID_while tg s textureID index True = Inr textureID"
  by (subst FindTextureID_while.simps) simp

lemma FindTextureID_while_scan:
  "0 \<le> index \<Longrightarrow> count_in_array s \<Longrightarrow>
   FindTextureID_while tg s textureID index bFound =
     Inr (if bFound = False \<and> tg \<in> set (drop (nat index) (registered_tags s))
          then sint (ID (m_textureIDs s !
                 (nat index + length (takeWhile (\<lambda>t. t \<noteq> tg) (drop (nat index) (registered_tags s))))))
          else textureID)"
proof (induction tg s textureID index bFound rule: FindTextureID_while.induct)
  case (1 tg s textureID index bFound)
  let ?tags = "registered_tags s"
  show ?case
  proof (cases "index < m_loadedTextures s \<and> bFound = False")
    case False
    then have "bFound \<or> drop (nat index) ?tags = []"
      using 1(4) by (auto simp: length_registered_tags)
    then show ?thesis using False
      by (subst FindTextureID_while.simps) auto
  next
    case True
    then have idx: "index < m_loadedTextures s" and nf: "bFound = False" by simp_all
    have ia: "in_array index (m_textureIDs s)"
      using 1(3,4) idx by (simp add: in_array_def count_in_array_def)
    have lt: "nat index < length ?tags"
      using 1(3,4) idx by (simp add: length_registered_tags)
    have dr: "drop (nat index) ?tags =
        TEXTURE_INFO.tag (m_textureIDs s ! nat index) # drop (nat (index + 1)) ?tags"
      using Cons_nth_drop_Suc[OF lt] registered_tags_nth[OF 1(3) idx 1(4)] 1(3)
      by (simp add: nat_add_distrib)
    show ?thesis
    proof (cases "TEXTURE_INFO.tag (m_textureIDs s ! nat index) = tg")
      case True
      then show ?thesis using idx nf ia dr
        by (subst FindTextureID_while.simps) (simp add: FindTextureID_while_found)
    next
      case neq: False
      have "0 \<le> index + 1" using 1(3) by simp
      from 1(2)[OF True _ neq this 1(4)] ia
      have "FindTextureID_while tg s textureID (index + 1) bFound =
          Inr (if bFound = False \<and> tg \<in> set (drop (nat (index + 1)) ?tags)
               then sint (ID (m_textureIDs s ! (nat (index + 1) +
                      length (takeWhile (\<lambda>t. t \<noteq> tg) (drop (nat (index + 1)) ?tags)))))
               else textureID)"
        by simp
      then show ?thesis using idx nf ia neq dr 1(3)
        by (subst FindTextureID_while.simps) (auto simp: nat_add_distrib)
    qed
  qed
qed

lemma FindTextureID_scan:
  "count_in_array s \<Longrightarrow>
   FindTextureID tg s =
     Inr (if tg \<in> set (registered_tags s)
          then sint (ID (m_textureIDs s ! length (takeWhile (\<lambda>t. t \<noteq> tg) (registered_tags s))))
          else - 1)"
  using FindTextureID_while_scan[of 0 s tg "- 1" False]
  by (simp add: FindTextureID_def)

subsection \<open>Material lookup\<close>

lemma FindMaterial_while_absent:
  "0 \<le> index \<Longrightarrow>
   \<forall>i. nat index \<le> i \<and> i < length (m_objectMaterials s) \<longrightarrow>
         OBJECT_MATERIAL.tag (m_objectMaterials s ! i) \<noteq> tg \<Longrightarrow>
   FindMaterial_while tg s m index bFound = m"
proof (induction tg s m index bFound rule: FindMaterial_while.induct)
  case (1 tg s material index bFound)
  show ?case
  proof (cases "(0 \<le> index \<and> index < int (length (m_objectMaterials s))) \<and> bFound = False")
    case True
    then have "nat index < length (m_objectMaterials s)" by linarith
    with 1(4) have nt: "OBJECT_MATERIAL.tag (m_objectMaterials s ! nat index) \<noteq> tg"
      by blast
    have "\<forall>i. nat (index + 1) \<le> i \<and> i < length (m_objectMaterials s) \<longrightarrow>
         OBJECT_MATERIAL.tag (m_objectMaterials s ! i) \<noteq> tg"
      using 1(3,4) by (metis nat_mono order.trans zero_le_one le_add_same_cancel1)
    with 1(2)[OF True nt] 1(3) have "FindMaterial_while tg s material (index + 1) bFound = material"
      by simp
    with True nt show ?thesis
      by (subst FindMaterial_while.simps) simp
  next
    case False
    then show ?thesis by (subst FindMaterial_while.simps) auto
  qed
qed

text \<open>
  C2. For every tag, \<^verbatim>\<open>FindMaterial\<close> returns false when the material registry is empty
  and true as soon as one material is defined, whether or not a registered tag matches the
  queried one: the result is exactly "the registry is not empty".
\<close>

theorem FindMaterial_returns_nonempty:
  "fst (FindMaterial tg material s) = (m_objectMaterials s \<noteq> [])"
  by (simp add: FindMaterial_def)

text \<open>
  C10. With a non-empty material registry in which no tag matches, \<^verbatim>\<open>FindMaterial\<close>
  returns true and leaves the caller's material as it was, so \<^verbatim>\<open>SetShaderMaterial\<close> with
  an unknown tag sends the content of its uninitialised local variable to the shader.
\<close>

theorem FindMaterial_unknown_tag:
  assumes "m_objectMaterials s \<noteq> []" and "tg \<notin> set (material_tags s)"
  shows "FindMaterial tg material s = (True, material) \<and>
     (m_pShaderManager s \<noteq> NULL \<longrightarrow> SetShaderMaterial uninit tg s =
      Inr (emit [setVec3Value ''material.diffuseColor'' (diffuseColor uninit),
                 setVec3Value ''material.specularColor'' (specularColor uninit),
                 setFloatValue ''material.shininess'' (shininess uninit)] s))"
proof -
  from assms(2) have "\<forall>i. nat 0 \<le> i \<and> i < length (m_objectMaterials s) \<longrightarrow>
         OBJECT_MATERIAL.tag (m_objectMaterials s ! i) \<noteq> tg"
    by (auto simp: material_tags_def)
  then have "\<And>m. FindMaterial_while tg s m 0 False = m"
    by (intro FindMaterial_while_absent) simp_all
  with assms(1) show ?thesis
    by (simp add: FindMaterial_def SetShaderMaterial_def)
qed

theorem FindMaterial_unknown_tag_witness:
  "m_objectMaterials (DefineObjectMaterials fresh_scene) \<noteq> [] \<and>
   ''wood'' \<notin> set (material_tags (DefineObjectMaterials fresh_scene)) \<and>
   m_pShaderManager (DefineObjectMaterials fresh_scene) \<noteq> NULL \<and>
   FindMaterial ''wood'' junk_material (DefineObjectMaterials fresh_scene) = (True, junk_material) \<and>
   SetShaderMaterial junk_material ''wood'' (DefineObjectMaterials fresh_scene) =
     Inr (emit [setVec3Value ''material.diffuseColor'' (vec3 7 7 7),
                setVec3Value ''material.specularColor'' (vec3 8 8 8),
                setFloatValue ''material.shininess'' 9] (DefineObjectMaterials fresh_scene))"
proof -
  have a: "m_objectMaterials (DefineObjectMaterials fresh_scene) \<noteq> []"
    by (simp add: DefineObjectMaterials_def push_back_def)
  have b: "''wood'' \<notin> set (material_tags (DefineObjectMaterials fresh_scene))"
    by (simp add: DefineObjectMaterials_def push_back_def material_tags_def fresh_scene_def
        cementMaterial_def tileMaterial_def marbleMaterial_def dirtMaterial_def
        metalMaterial_def glassMaterial_def plasticMaterial_def)
  have c: "m_pShaderManager (DefineObjectMaterials fresh_scene) \<noteq> NULL"
    by (simp add: DefineObjectMaterials_def push_back_def fresh_scene_def)
  show ?thesis
    using FindMaterial_unknown_tag[OF a b, of junk_material junk_material] a b c
    by (simp add: junk_material_def)
qed

subsection \<open>Texture registration\<close>

lemma register_texture_Inr:
  "register_texture textureID tg s = Inr s' \<Longrightarrow>
   0 \<le> m_loadedTextures s \<and> m_loadedTextures s < int (length (m_textureIDs s)) \<and>
   m_loadedTextures s' = m_loadedTextures s + 1 \<and>
   length (m_textureIDs s') = length (m_textureIDs s) \<and>
   registered s' = registered s @ [\<lparr>ID = textureID, TEXTURE_INFO.tag = tg\<rparr>] \<and>
   m_pShaderManager s' = m_pShaderManager s \<and> m_objectMaterials s' = m_objectMaterials s \<and>
   trace s' = trace s"
  by (auto simp: register_texture_def in_array_def registered_def nat_add_distrib
      take_Suc_conv_app_nth split: if_splits)

lemma CreateGLTexture_True:
  assumes "CreateGLTexture p filename tg s = Inr (True, s')"
  shows "0 \<le> m_loadedTextures s \<and> m_loadedTextures s < int (length (m_textureIDs s)) \<and>
   m_loadedTextures s' = m_loadedTextures s + 1 \<and>
   length (m_textureIDs s') = length (m_textureIDs s) \<and>
   (\<exists>textureID. registered s' = registered s @ [\<lparr>ID = textureID, TEXTURE_INFO.tag = tg\<rparr>])"
  using assms
  by (auto simp: CreateGLTexture_def Let_def split: option.splits if_splits sum.splits
      dest!: register_texture_Inr)

lemma CreateGLTexture_all_registered:
  "CreateGLTexture_all p cs s0 = Some s \<Longrightarrow>
   m_loadedTextures s = m_loadedTextures s0 + int (length cs) \<and>
   registered_tags s = registered_tags s0 @ map snd cs \<and>
   length (m_textureIDs s) = length (m_textureIDs s0) \<and>
   (cs \<noteq> [] \<longrightarrow> 0 \<le> m_loadedTextures s0 \<and> count_in_array s)"
proof (induction cs arbitrary: s0)
  case Nil
  then show ?case by simp
next
  case (Cons c cs)
  obtain filename tg where c: "c = (filename, tg)" by (cases c)
  from Cons.prems c obtain s1 where
    s1: "CreateGLTexture p filename tg s0 = Inr (True, s1)" and
    rest: "CreateGLTexture_all p cs s1 = Some s"
    by (auto split: sum.splits bool.splits prod.splits)
  note one = CreateGLTexture_True[OF s1]
  note ih = Cons.IH[OF rest]
  have tags1: "registered_tags s1 = registered_tags s0 @ [tg]"
    using one by (auto simp: registered_tags_def)
  have "count_in_array s"
  proof (cases "cs = []")
    case True
    with rest have "s = s1" by simp
    with one show ?thesis by (simp add: count_in_array_def)
  next
    case False
    with ih show ?thesis by simp
  qed
  with one ih tags1 c show ?case by simp
qed

lemma takeWhile_distinct_append:
  "distinct (xs @ ys) \<Longrightarrow> i < length ys \<Longrightarrow>
   takeWhile (\<lambda>t. t \<noteq> ys ! i) (xs @ ys) = xs @ take i ys"
proof (induction xs)
  case Nil
  then show ?case
  proof (induction ys arbitrary: i)
    case Nil
    then show ?case by simp
  next
    case (Cons y ys)
    then show ?case by (cases i) auto
  qed
next
  case (Cons x xs)
  then show ?case by (auto simp: nth_mem)
qed

text \<open>
  C4. A run of \<^verbatim>\<open>CreateGLTexture\<close> calls that all return true, with tags distinct from each
  other and from the tags registered before, appends one entry per call in call order: the
  count grows by the number of calls, and afterwards \<^verbatim>\<open>FindTextureSlot\<close> of the \<open>i\<close>-th tag
  returns its registration index (the count before the run plus \<open>i\<close>), which lies in
  \<open>[0, m_loadedTextures)\<close>.
\<close>

theorem CreateGLTexture_registration_order:
  assumes run: "CreateGLTexture_all p cs s0 = Some s"
    and dist: "distinct (registered_tags s0 @ map snd cs)"
    and i: "i < length cs"
  shows "m_loadedTextures s = m_loadedTextures s0 + int (length cs) \<and>
     registered_tags s = registered_tags s0 @ map snd cs \<and>
     FindTextureSlot (snd (cs ! i)) s = Inr (m_loadedTextures s0 + int i) \<and>
     0 \<le> m_loadedTextures s0 + int i \<and> m_loadedTextures s0 + int i < m_loadedTextures s"
proof -
  note reg = CreateGLTexture_all_registered[OF run]
  from i have ne: "cs \<noteq> []" by auto
  with reg have c: "count_in_array s" and n0: "0 \<le> m_loadedTextures s0" by simp_all
  have "length (registered_tags s) = nat (m_loadedTextures s)"
    using c by (rule length_registered_tags)
  with reg n0 have len0: "length (registered_tags s0) = nat (m_loadedTextures s0)"
    by (simp add: nat_add_distrib)
  from i have "cs ! i \<in> set cs" by simp
  then have "snd (cs ! i) \<in> snd ` set cs" by (rule imageI)
  with reg have mem: "snd (cs ! i) \<in> set (registered_tags s)" by simp
  have "takeWhile (\<lambda>t. t \<noteq> map snd cs ! i) (registered_tags s0 @ map snd cs) =
        registered_tags s0 @ take i (map snd cs)"
    using dist i by (intro takeWhile_distinct_append) simp_all
  with i reg have "length (takeWhile (\<lambda>t. t \<noteq> snd (cs ! i)) (registered_tags s)) =
        nat (m_loadedTextures s0) + i"
    by (simp add: len0)
  with mem n0 have "FindTextureSlot (snd (cs ! i)) s = Inr (m_loadedTextures s0 + int i)"
    by (simp add: FindTextureSlot_scan[OF c])
  with reg n0 i show ?thesis by simp
qed

theorem CreateGLTexture_registration_order_witness:
  "\<exists>s. CreateGLTexture_all rgb_files
          [(''textures/black_marble.jpg'', ''box''), (''textures/cement.jpg'', ''potBody'')]
          fresh_scene = Some s \<and>
       m_loadedTextures s = 2 \<and>
       registered_tags s = [''box'', ''potBody''] \<and>
       FindTextureSlot ''potBody'' s = Inr 1"
proof -
  let ?cs = "[(''textures/black_marble.jpg'', ''box''), (''textures/cement.jpg'', ''potBody'')]"
  obtain s where run: "CreateGLTexture_all rgb_files ?cs fresh_scene = Some s"
    by (simp add: CreateGLTexture_def register_texture_def in_array_def fresh_scene_def
        rgb_files_def emit_def Let_def)
  have tags0: "registered_tags fresh_scene = []"
    by (simp add: registered_tags_def registered_def fresh_scene_def)
  have dist: "distinct (registered_tags fresh_scene @ map snd ?cs)"
    by (simp add: tags0)
  have i: "(1::nat) < length ?cs" by simp
  have n0: "m_loadedTextures fresh_scene = 0" by (simp add: fresh_scene_def)
  show ?thesis
    using CreateGLTexture_registration_order[OF run dist i] run
    by (simp add: tags0 n0)
qed

text \<open>
  C5. When the file does not decode, or decodes with a channel count other than 3 and 4,
  \<^verbatim>\<open>CreateGLTexture\<close> returns false and the texture registry is as before: the array and
  the count are unchanged.
\<close>

theorem CreateGLTexture_failure:
  assumes "stbi_load p filename = None \<or>
           (\<exists>img. stbi_load p filename = Some img \<and> colorChannels img \<noteq> 3 \<and> colorChannels img \<noteq> 4)"
  shows "\<exists>s'. CreateGLTexture p filename tg s = Inr (False, s') \<and>
           m_textureIDs s' = m_textureIDs s \<and> m_loadedTextures s' = m_loadedTextures s \<and>
           registered s' = registered s"
  using assms by (auto simp: CreateGLTexture_def Let_def registered_def)

theorem CreateGLTexture_failure_witness:
  "(\<exists>s'. CreateGLTexture two_channel_files ''textures/gray.png'' ''gray'' fresh_scene = Inr (False, s') \<and>
         m_textureIDs s' = m_textureIDs fresh_scene \<and> m_loadedTextures s' = 0) \<and>
   (\<exists>s'. CreateGLTexture two_channel_files ''textures/missing.jpg'' ''gone'' fresh_scene = Inr (False, s') \<and>
         m_textureIDs s' = m_textureIDs fresh_scene \<and> m_loadedTextures s' = 0)"
proof -
  have a: "stbi_load two_channel_files ''textures/gray.png'' = None \<or>
           (\<exists>img. stbi_load two_channel_files ''textures/gray.png'' = Some img \<and>
              colorChannels img \<noteq> 3 \<and> colorChannels img \<noteq> 4)"
    by (simp add: two_channel_files_def)
  have b: "stbi_load two_channel_files ''textures/missing.jpg'' = None \<or>
           (\<exists>img. stbi_load two_channel_files ''textures/missing.jpg'' = Some img \<and>
              colorChannels img \<noteq> 3 \<and> colorChannels img \<noteq> 4)"
    by (simp add: two_channel_files_def)
  have n0: "m_loadedTextures fresh_scene = 0" by (simp add: fresh_scene_def)
  show ?thesis
    using CreateGLTexture_failure[OF a, of "''gray''" fresh_scene]
      CreateGLTexture_failure[OF b, of "''gone''" fresh_scene]
    by (auto simp: n0)
qed

text \<open>
  C6. The claim: with 16 textures registered, a further \<^verbatim>\<open>CreateGLTexture\<close> is rejected and
  returns failure. The source has no such check. With 16 registered in the array of 16
  entries, loading a decodable RGB image writes \<^verbatim>\<open>m_textureIDs[16]\<close>, outside the array; in
  a longer array the call registers a seventeenth texture and returns true.
\<close>

theorem CreateGLTexture_seventeenth:
  "m_loadedTextures full_scene = 16 \<and> length (m_textureIDs full_scene) = 16 \<and>
   CreateGLTexture rgb_files ''textures/extra.jpg'' ''extra'' full_scene = Inl OutOfBounds \<and>
   m_loadedTextures roomy_scene = 16 \<and> length (m_textureIDs roomy_scene) = 32 \<and>
   (\<exists>s'. CreateGLTexture rgb_files ''textures/extra.jpg'' ''extra'' roomy_scene = Inr (True, s') \<and>
         m_loadedTextures s' = 17)"
  by (simp add: CreateGLTexture_def register_texture_def in_array_def full_scene_def
      roomy_scene_def fresh_scene_def rgb_files_def emit_def Let_def)

subsection \<open>The sentinel of the lookups\<close>

text \<open>
  C9, as claimed, fails for \<^verbatim>\<open>FindTextureID\<close>: a registered texture whose name is
  \<^verbatim>\<open>0xFFFFFFFF\<close> converts to the \<^verbatim>\<open>int\<close> -1, which is the sentinel. Such an object is
  what \<^verbatim>\<open>CreateGLTexture\<close> builds when the driver hands out that name
  (\<open>sentinel_scene_reachable\<close> below).
\<close>

theorem FindTextureID_sentinel_collision:
  "count_in_array sentinel_scene \<and> ''box'' \<in> set (registered_tags sentinel_scene) \<and>
   FindTextureID ''box'' sentinel_scene = Inr (- 1)"
  by (simp add: FindTextureID_def FindTextureID_while.simps in_array_def count_in_array_def
      registered_tags_def registered_def sentinel_scene_def fresh_scene_def
      take_Suc_conv_app_nth)

lemma sentinel_scene_reachable:
  "\<exists>s. CreateGLTexture max_name_driver ''textures/black_marble.jpg'' ''box'' fresh_scene =
          Inr (True, s) \<and>
       m_textureIDs s = m_textureIDs sentinel_scene \<and>
       m_loadedTextures s = m_loadedTextures sentinel_scene"
  by (simp add: CreateGLTexture_def register_texture_def in_array_def sentinel_scene_def
      fresh_scene_def max_name_driver_def emit_def Let_def)

text \<open>
  C9, amended. Both lookups scan the registered textures from index 0 and stop at the first
  entry with the tag. \<^verbatim>\<open>FindTextureSlot\<close> returns that index, and -1 exactly when no
  registered texture has the tag. \<^verbatim>\<open>FindTextureID\<close> returns the name of that entry read as
  an \<^verbatim>\<open>int\<close>, and -1 exactly when no registered texture has the tag or the name of the
  first match is \<^verbatim>\<open>0xFFFFFFFF\<close>.
\<close>

theorem FindTexture_sentinel:
  assumes "count_in_array s"
  shows "FindTextureSlot tg s =
           Inr (if tg \<in> set (registered_tags s)
                then int (length (takeWhile (\<lambda>t. t \<noteq> tg) (registered_tags s))) else - 1) \<and>
         (FindTextureSlot tg s = Inr (- 1) \<longleftrightarrow> tg \<notin> set (registered_tags s)) \<and>
         FindTextureID tg s =
           Inr (if tg \<in> set (registered_tags s)
                then sint (ID (m_textureIDs s ! length (takeWhile (\<lambda>t. t \<noteq> tg) (registered_tags s))))
                else - 1) \<and>
         (FindTextureID tg s = Inr (- 1) \<longleftrightarrow>
            tg \<notin> set (registered_tags s) \<or>
            ID (m_textureIDs s ! length (takeWhile (\<lambda>t. t \<noteq> tg) (registered_tags s))) = - 1)"
proof -
  have "sint w = - 1 \<longleftrightarrow> w = - 1" for w :: GLuint
  proof
    assume "sint w = - 1"
    then have "sint w = sint (- 1 :: GLuint)" by simp
    then show "w = - 1" by (rule signed_word_eqI)
  next
    assume "w = - 1"
    then show "sint w = - 1" by simp
  qed
  then show ?thesis
    by (simp add: FindTextureSlot_scan[OF assms] FindTextureID_scan[OF assms])
qed

theorem FindTexture_sentinel_witness:
  "count_in_array sentinel_scene \<and>
   FindTextureSlot ''box'' sentinel_scene = Inr 0 \<and>
   FindTextureSlot ''leaf'' sentinel_scene = Inr (- 1) \<and>
   FindTextureID ''leaf'' sentinel_scene = Inr (- 1)"
proof -
  have c: "count_in_array sentinel_scene"
    by (simp add: count_in_array_def sentinel_scene_def fresh_scene_def)
  have tags: "registered_tags sentinel_scene = [''box'']"
    by (simp add: registered_tags_def registered_def sentinel_scene_def fresh_scene_def
        take_Suc_conv_app_nth)
  show ?thesis
    using FindTexture_sentinel[OF c, of "''box''"] FindTexture_sentinel[OF c, of "''leaf''"] c
    by (simp add: tags)
qed

subsection \<open>The use-texture flag\<close>

lemma uniform_append:
  "uniform n (xs @ ys) = (case uniform n ys of Some c \<Rightarrow> Some c | None \<Rightarrow> uniform n xs)"
  by (induction xs) (auto split: option.splits)

lemma fresh_scene_count_in_array: "count_in_array fresh_scene"
  by (simp add: count_in_array_def fresh_scene_def)

lemma fresh_scene_shader: "m_pShaderManager fresh_scene \<noteq> NULL"
  by (simp add: fresh_scene_def)

text \<open>
  C7. With a shader manager attached, \<^verbatim>\<open>SetShaderTexture\<close> leaves the uniform
  \<^verbatim>\<open>bUseTexture\<close> at 1 (true), and \<^verbatim>\<open>SetShaderColor\<close> leaves it at 0 (false) and the
  uniform \<^verbatim>\<open>objectColor\<close> at the given RGBA colour: after either call the flag is the
  last selection made.
\<close>

theorem texture_color_exclusive:
  assumes "m_pShaderManager s \<noteq> NULL" and "count_in_array s"
  shows "(\<exists>s'. SetShaderTexture textureTag s = Inr s' \<and>
            uniform g_UseTextureName (trace s') = Some (setIntValue g_UseTextureName 1)) \<and>
         uniform g_UseTextureName (trace (SetShaderColor r g b a s)) =
            Some (setIntValue g_UseTextureName 0) \<and>
         uniform g_ColorValueName (trace (SetShaderColor r g b a s)) =
            Some (setVec4Value g_ColorValueName (vec4 r g b a))"
proof -
  define slot where "slot = (if textureTag \<in> set (registered_tags s)
       then int (length (takeWhile (\<lambda>t. t \<noteq> textureTag) (registered_tags s))) else - 1)"
  have slot: "\<And>cs. FindTextureSlot textureTag (emit cs s) = Inr slot"
    using assms(2) by (simp add: FindTextureSlot_scan slot_def)
  have "\<exists>s'. SetShaderTexture textureTag s = Inr s' \<and>
            uniform g_UseTextureName (trace s') = Some (setIntValue g_UseTextureName 1)"
    using assms(1)
    by (simp add: SetShaderTexture_def Let_def slot uniform_append
        g_UseTextureName_def g_TextureValueName_def)
  moreover have "uniform g_UseTextureName (trace (SetShaderColor r g b a s)) =
            Some (setIntValue g_UseTextureName 0)"
    using assms(1)
    by (simp add: SetShaderColor_def Let_def uniform_append g_UseTextureName_def
        g_ColorValueName_def)
  moreover have "uniform g_ColorValueName (trace (SetShaderColor r g b a s)) =
            Some (setVec4Value g_ColorValueName (vec4 r g b a))"
    using assms(1)
    by (simp add: SetShaderColor_def Let_def uniform_append g_ColorValueName_def)
  ultimately show ?thesis by blast
qed

theorem texture_color_exclusive_witness:
  "m_pShaderManager fresh_scene \<noteq> NULL \<and> count_in_array fresh_scene \<and>
   (\<exists>s'. SetShaderTexture ''plastic'' fresh_scene = Inr s' \<and>
            uniform ''bUseTexture'' (trace s') = Some (setIntValue ''bUseTexture'' 1)) \<and>
   uniform ''bUseTexture'' (trace (SetShaderColor 1 1 1 0.3 fresh_scene)) =
            Some (setIntValue ''bUseTexture'' 0) \<and>
   uniform ''objectColor'' (trace (SetShaderColor 1 1 1 0.3 fresh_scene)) =
            Some (setVec4Value ''objectColor'' (vec4 1 1 1 0.3))"
  using texture_color_exclusive[OF fresh_scene_shader fresh_scene_count_in_array,
      of "''plastic''" 1 1 1 "0.3"]
    fresh_scene_shader fresh_scene_count_in_array
  by (simp add: g_UseTextureName_def g_ColorValueName_def)

subsection \<open>The model matrix\<close>

lemma mat4_vec4_exact_mul: "mat4_vec4 (exact_mul a b) v = mat4_vec4 a (mat4_vec4 b v)"
proof -
  obtain a0 a1 a2 a3 where a: "a = mat4 a0 a1 a2 a3" by (cases a)
  obtain b0 b1 b2 b3 where b: "b = mat4 b0 b1 b2 b3" by (cases b)
  obtain x y z w where v: "v = vec4 x y z w" by (cases v)
  obtain a00 a01 a02 a03 where a0: "a0 = vec4 a00 a01 a02 a03" by (cases a0)
  obtain a10 a11 a12 a13 where a1: "a1 = vec4 a10 a11 a12 a13" by (cases a1)
  obtain a20 a21 a22 a23 where a2: "a2 = vec4 a20 a21 a22 a23" by (cases a2)
  obtain a30 a31 a32 a33 where a3: "a3 = vec4 a30 a31 a32 a33" by (cases a3)
  obtain b00 b01 b02 b03 where b0: "b0 = vec4 b00 b01 b02 b03" by (cases b0)
  obtain b10 b11 b12 b13 where b1: "b1 = vec4 b10 b11 b12 b13" by (cases b1)
  obtain b20 b21 b22 b23 where b2: "b2 = vec4 b20 b21 b22 b23" by (cases b2)
  obtain b30 b31 b32 b33 where b3: "b3 = vec4 b30 b31 b32 b33" by (cases b3)
  show ?thesis
    unfolding a b v a0 a1 a2 a3 b0 b1 b2 b3
    by (simp add: algebra_simps)
qed

lemma glm_exact_neutral: "glm_neutral glm_exact p"
  by (cases p) (simp add: glm_neutral_def glm_exact_def mat4_identity_def exact_radians_def)

text \<open>
  C1. With a shader manager attached, \<^verbatim>\<open>SetTransformations\<close> makes exactly one call: it
  writes to the uniform \<^verbatim>\<open>model\<close> the product translation * rotationZ * rotationY *
  rotationX * scale, where each rotation is built from the angle converted by
  \<^verbatim>\<open>glm::radians\<close>. This holds for every implementation of glm. In exact arithmetic the
  matrix written maps a vector by scaling it first, then rotating about X, about Y, about
  Z, and translating last.
\<close>

theorem SetTransformations_model_matrix:
  assumes "m_pShaderManager s \<noteq> NULL"
  shows "SetTransformations g scaleXYZ x y z positionXYZ s =
     emit [setMat4Value ''model''
       (glm_mul g (glm_mul g (glm_mul g (glm_mul g
          (glm_translate g positionXYZ)
          (glm_rotate g (glm_radians g z) (vec3 0 0 1)))
          (glm_rotate g (glm_radians g y) (vec3 0 1 0)))
          (glm_rotate g (glm_radians g x) (vec3 1 0 0)))
          (glm_scale g scaleXYZ))] s \<and>
   (\<exists>m. SetTransformations glm_exact scaleXYZ x y z positionXYZ s =
           emit [setMat4Value ''model'' m] s \<and>
        (\<forall>v. mat4_vec4 m v =
           mat4_vec4 (exact_translate positionXYZ)
            (mat4_vec4 (exact_rotate (exact_radians z) (vec3 0 0 1))
              (mat4_vec4 (exact_rotate (exact_radians y) (vec3 0 1 0))
                (mat4_vec4 (exact_rotate (exact_radians x) (vec3 1 0 0))
                  (mat4_vec4 (exact_scale scaleXYZ) v))))))"
proof (intro conjI exI allI)
  show "SetTransformations g scaleXYZ x y z positionXYZ s =
     emit [setMat4Value ''model''
       (glm_mul g (glm_mul g (glm_mul g (glm_mul g
          (glm_translate g positionXYZ)
          (glm_rotate g (glm_radians g z) (vec3 0 0 1)))
          (glm_rotate g (glm_radians g y) (vec3 0 1 0)))
          (glm_rotate g (glm_radians g x) (vec3 1 0 0)))
          (glm_scale g scaleXYZ))] s"
    using assms by (simp add: SetTransformations_def Let_def g_ModelName_def)
  show "SetTransformations glm_exact scaleXYZ x y z positionXYZ s =
     emit [setMat4Value ''model''
       (exact_mul (exact_mul (exact_mul (exact_mul
          (exact_translate positionXYZ)
          (exact_rotate (exact_radians z) (vec3 0 0 1)))
          (exact_rotate (exact_radians y) (vec3 0 1 0)))
          (exact_rotate (exact_radians x) (vec3 1 0 0)))
          (exact_scale scaleXYZ))] s"
    using assms
    by (simp add: SetTransformations_def Let_def g_ModelName_def glm_exact_def
        del: exact_mul.simps exact_rotate.simps exact_scale.simps exact_translate.simps)
  show "mat4_vec4 (exact_mul (exact_mul (exact_mul (exact_mul
          (exact_translate positionXYZ)
          (exact_rotate (exact_radians z) (vec3 0 0 1)))
          (exact_rotate (exact_radians y) (vec3 0 1 0)))
          (exact_rotate (exact_radians x) (vec3 1 0 0)))
          (exact_scale scaleXYZ)) v =
        mat4_vec4 (exact_translate positionXYZ)
            (mat4_vec4 (exact_rotate (exact_radians z) (vec3 0 0 1))
              (mat4_vec4 (exact_rotate (exact_radians y) (vec3 0 1 0))
                (mat4_vec4 (exact_rotate (exact_radians x) (vec3 1 0 0))
                  (mat4_vec4 (exact_scale scaleXYZ) v))))" for v
    by (simp only: mat4_vec4_exact_mul)
qed

theorem SetTransformations_model_matrix_witness:
  "m_pShaderManager fresh_scene \<noteq> NULL \<and>
   SetTransformations glm_exact (vec3 20 1 10) 90 0 0 (vec3 0 10 (- 10)) fresh_scene =
     emit [setMat4Value ''model''
       (exact_mul (exact_mul (exact_mul (exact_mul
          (exact_translate (vec3 0 10 (- 10)))
          (exact_rotate (exact_radians 0) (vec3 0 0 1)))
          (exact_rotate (exact_radians 0) (vec3 0 1 0)))
          (exact_rotate (exact_radians 90) (vec3 1 0 0)))
          (exact_scale (vec3 20 1 10)))] fresh_scene"
proof -
  have a: "m_pShaderManager fresh_scene \<noteq> NULL" by (simp add: fresh_scene_def)
  show ?thesis
    using SetTransformations_model_matrix[OF a, of glm_exact "vec3 20 1 10" 90 0 0
        "vec3 0 10 (- 10)"] a
    by (simp add: glm_exact_def
        del: exact_mul.simps exact_rotate.simps exact_scale.simps exact_translate.simps)
qed

text \<open>
  C8. With scale \<open>(1,1,1)\<close> and rotation 0 on the three axes, and a glm for which these are
  neutral (the laws \<open>glm_neutral\<close>, which exact arithmetic satisfies),
  \<^verbatim>\<open>SetTransformations\<close> writes exactly \<^verbatim>\<open>glm::translate(positionXYZ)\<close> to the uniform
  \<^verbatim>\<open>model\<close>; in exact arithmetic that is the identity matrix with \<open>(tx,ty,tz)\<close> in the
  fourth column.
\<close>

theorem SetTransformations_neutral:
  assumes "m_pShaderManager s \<noteq> NULL" and "glm_neutral g positionXYZ"
  shows "SetTransformations g (vec3 1 1 1) 0 0 0 positionXYZ s =
     emit [setMat4Value ''model'' (glm_translate g positionXYZ)] s \<and>
   SetTransformations glm_exact (vec3 1 1 1) 0 0 0 (vec3 tx ty tz) s =
     emit [setMat4Value ''model''
       (mat4 (vec4 1 0 0 0) (vec4 0 1 0 0) (vec4 0 0 1 0) (vec4 tx ty tz 1))] s"
proof -
  have "glm_neutral glm_exact (vec3 tx ty tz)" by (rule glm_exact_neutral)
  then have "SetTransformations glm_exact (vec3 1 1 1) 0 0 0 (vec3 tx ty tz) s =
     emit [setMat4Value ''model'' (glm_translate glm_exact (vec3 tx ty tz))] s"
    using assms(1) by (simp add: SetTransformations_def Let_def g_ModelName_def glm_neutral_def)
  then show ?thesis
    using assms
    by (simp add: SetTransformations_def Let_def g_ModelName_def glm_neutral_def glm_exact_def)
qed

theorem SetTransformations_neutral_witness:
  "m_pShaderManager fresh_scene \<noteq> NULL \<and> glm_neutral glm_exact (vec3 3 1 (- 5)) \<and>
   SetTransformations glm_exact (vec3 1 1 1) 0 0 0 (vec3 3 1 (- 5)) fresh_scene =
     emit [setMat4Value ''model''
       (mat4 (vec4 1 0 0 0) (vec4 0 1 0 0) (vec4 0 0 1 0) (vec4 3 1 (- 5) 1))] fresh_scene"
proof -
  have a: "m_pShaderManager fresh_scene \<noteq> NULL" by (simp add: fresh_scene_def)
  have b: "glm_neutral glm_exact (vec3 3 1 (- 5))"
    by (simp add: glm_neutral_def glm_exact_def mat4_identity_def exact_radians_def)
  show ?thesis
    using SetTransformations_neutral[OF a b, of 3 1 "- 5"] a b by (simp add: glm_exact_def)
qed

subsection \<open>Rendering a prepared scene\<close>

lemma FindMaterial_while_found: "FindMaterial_while tg s m index True = m"
  by (subst FindMaterial_while.simps) simp

lemma FindMaterial_while_scan:
  "0 \<le> index \<Longrightarrow>
   FindMaterial_while tg s m index bFound =
     (if bFound = False \<and> tg \<in> set (drop (nat index) (material_tags s))
      then m\<lparr>diffuseColor := diffuseColor (m_objectMaterials s !
                 (nat index + length (takeWhile (\<lambda>t. t \<noteq> tg) (drop (nat index) (material_tags s))))),
              specularColor := specularColor (m_objectMaterials s !
                 (nat index + length (takeWhile (\<lambda>t. t \<noteq> tg) (drop (nat index) (material_tags s))))),
              shininess := shininess (m_objectMaterials s !
                 (nat index + length (takeWhile (\<lambda>t. t \<noteq> tg) (drop (nat index) (material_tags s)))))\<rparr>
      else m)"
proof (induction tg s m index bFound rule: FindMaterial_while.induct)
  case (1 tg s material index bFound)
  let ?tags = "material_tags s"
  show ?case
  proof (cases "(0 \<le> index \<and> index < int (length (m_objectMaterials s))) \<and> bFound = False")
    case False
    then have "bFound \<or> drop (nat index) ?tags = []"
      using 1(3) by (auto simp: material_tags_def)
    then show ?thesis using False
      by (subst FindMaterial_while.simps) auto
  next
    case True
    then have idx: "index < int (length (m_objectMaterials s))" and nf: "bFound = False"
      by simp_all
    have lt: "nat index < length ?tags"
      using 1(3) idx by (simp add: material_tags_def)
    have dr: "drop (nat index) ?tags =
        OBJECT_MATERIAL.tag (m_objectMaterials s ! nat index) # drop (nat (index + 1)) ?tags"
      using Cons_nth_drop_Suc[OF lt] lt 1(3)
      by (simp add: nat_add_distrib material_tags_def)
    show ?thesis
    proof (cases "OBJECT_MATERIAL.tag (m_objectMaterials s ! nat index) = tg")
      case True
      then show ?thesis using idx nf dr 1(3)
        by (subst FindMaterial_while.simps) (simp add: FindMaterial_while_found)
    next
      case neq: False
      have "0 \<le> index + 1" using 1(3) by simp
      note ih = 1(2)[OF True neq this]
      show ?thesis using ih idx nf neq dr 1(3)
        by (subst FindMaterial_while.simps) (auto simp: nat_add_distrib)
    qed
  qed
qed

lemma trace_update_fields [simp]:
  "registered (s\<lparr>trace := tr\<rparr>) = registered s"
  "registered_tags (s\<lparr>trace := tr\<rparr>) = registered_tags s"
  "material_tags (s\<lparr>trace := tr\<rparr>) = material_tags s"
  "count_in_array (s\<lparr>trace := tr\<rparr>) = count_in_array s"
  "prepared (s\<lparr>trace := tr\<rparr>) = prepared s"
  "emit cs (s\<lparr>trace := tr\<rparr>) = s\<lparr>trace := tr @ cs\<rparr>"
  by (simp_all add: registered_def registered_tags_def material_tags_def count_in_array_def
      prepared_def emit_def)

lemma same_output_SetTransformations [simp]:
  "same_output (total (SetTransformations g sc x y z pos)) (total (SetTransformations g sc x y z pos))"
  by (auto simp: same_output_def prepared_def total_def SetTransformations_def Let_def)

lemma same_output_SetShaderColor [simp]:
  "same_output (total (SetShaderColor r g b a)) (total (SetShaderColor r g b a))"
  by (auto simp: same_output_def prepared_def total_def SetShaderColor_def Let_def)

lemma same_output_m_basicMeshes [simp]:
  "same_output (total (m_basicMeshes c)) (total (m_basicMeshes c))"
  by (auto simp: same_output_def total_def m_basicMeshes_def)

lemma same_output_SetShaderTexture [simp]:
  "same_output (SetShaderTexture tg) (SetShaderTexture tg)"
proof (unfold same_output_def, intro allI impI)
  fix s assume p: "prepared s"
  define slot where "slot = (if tg \<in> set (registered_tags s)
       then int (length (takeWhile (\<lambda>t. t \<noteq> tg) (registered_tags s))) else - 1)"
  have slot: "\<And>tr. FindTextureSlot tg (s\<lparr>trace := tr\<rparr>) = Inr slot"
    using p by (simp add: FindTextureSlot_scan slot_def prepared_def)
  have np: "NULL \<noteq> m_pShaderManager s"
    using p by (auto simp: prepared_def)
  have "\<forall>tr. SetShaderTexture tg (s\<lparr>trace := tr\<rparr>) =
          Inr (s\<lparr>trace := tr @ [setIntValue g_UseTextureName 1,
                                 setSampler2DValue g_TextureValueName slot]\<rparr>)"
    using np by (simp add: SetShaderTexture_def Let_def slot)
  then show "\<exists>t. \<forall>tr. SetShaderTexture tg (s\<lparr>trace := tr\<rparr>) = Inr (s\<lparr>trace := tr @ t\<rparr>) \<and>
                    SetShaderTexture tg (s\<lparr>trace := tr\<rparr>) = Inr (s\<lparr>trace := tr @ t\<rparr>)"
    by blast
qed

lemma same_output_SetShaderMaterial [simp]:
  assumes "tg \<in> set [''cement'', ''tile'', ''marble'', ''dirt'', ''metal'', ''glass'', ''plastic'']"
  shows "same_output (SetShaderMaterial u tg) (SetShaderMaterial u' tg)"
proof (unfold same_output_def, intro allI impI)
  fix s assume p: "prepared s"
  from p assms have mem: "tg \<in> set (material_tags s)"
    unfolding prepared_def by blast
  then have ne: "m_objectMaterials s \<noteq> []" by (auto simp: material_tags_def)
  define e where "e = m_objectMaterials s ! length (takeWhile (\<lambda>t. t \<noteq> tg) (material_tags s))"
  have fm: "\<And>tr m. FindMaterial tg m (s\<lparr>trace := tr\<rparr>) =
      (True, m\<lparr>diffuseColor := diffuseColor e, specularColor := specularColor e,
               shininess := shininess e\<rparr>)"
    using mem ne by (simp add: FindMaterial_def FindMaterial_while_scan e_def)
  have "\<forall>tr. SetShaderMaterial u tg (s\<lparr>trace := tr\<rparr>) =
            Inr (s\<lparr>trace := tr @ [setVec3Value ''material.diffuseColor'' (diffuseColor e),
                                   setVec3Value ''material.specularColor'' (specularColor e),
                                   setFloatValue ''material.shininess'' (shininess e)]\<rparr>) \<and>
          SetShaderMaterial u' tg (s\<lparr>trace := tr\<rparr>) =
            Inr (s\<lparr>trace := tr @ [setVec3Value ''material.diffuseColor'' (diffuseColor e),
                                   setVec3Value ''material.specularColor'' (specularColor e),
                                   setFloatValue ''material.shininess'' (shininess e)]\<rparr>)"
    using p ne by (simp add: SetShaderMaterial_def fm prepared_def)
  then show "\<exists>t. \<forall>tr. SetShaderMaterial u tg (s\<lparr>trace := tr\<rparr>) = Inr (s\<lparr>trace := tr @ t\<rparr>) \<and>
                    SetShaderMaterial u' tg (s\<lparr>trace := tr\<rparr>) = Inr (s\<lparr>trace := tr @ t\<rparr>)"
    by blast
qed

lemma same_output_seq:
  "list_all2 same_output fs fs' \<Longrightarrow> same_output (seq fs) (seq fs')"
proof (induction rule: list_all2_induct)
  case Nil
  show ?case
    unfolding same_output_def
  proof (intro allI impI)
    fix s
    have "\<forall>tr. seq [] (s\<lparr>trace := tr\<rparr>) = Inr (s\<lparr>trace := tr @ []\<rparr>)" by simp
    then show "\<exists>t. \<forall>tr. seq [] (s\<lparr>trace := tr\<rparr>) = Inr (s\<lparr>trace := tr @ t\<rparr>) \<and>
                      seq [] (s\<lparr>trace := tr\<rparr>) = Inr (s\<lparr>trace := tr @ t\<rparr>)"
      by blast
  qed
next
  case (Cons f fs f' fs')
  show ?case
    unfolding same_output_def
  proof (intro allI impI)
    fix s assume p: "prepared s"
    from Cons.hyps(1) p obtain t1 where
      t1: "\<And>tr. f (s\<lparr>trace := tr\<rparr>) = Inr (s\<lparr>trace := tr @ t1\<rparr>)"
          "\<And>tr. f' (s\<lparr>trace := tr\<rparr>) = Inr (s\<lparr>trace := tr @ t1\<rparr>)"
      unfolding same_output_def by blast
    from Cons.IH p obtain t2 where
      t2: "\<And>tr. seq fs (s\<lparr>trace := tr\<rparr>) = Inr (s\<lparr>trace := tr @ t2\<rparr>)"
          "\<And>tr. seq fs' (s\<lparr>trace := tr\<rparr>) = Inr (s\<lparr>trace := tr @ t2\<rparr>)"
      unfolding same_output_def by blast
    have "\<forall>tr. seq (f # fs) (s\<lparr>trace := tr\<rparr>) = Inr (s\<lparr>trace := tr @ (t1 @ t2)\<rparr>) \<and>
               seq (f' # fs') (s\<lparr>trace := tr\<rparr>) = Inr (s\<lparr>trace := tr @ (t1 @ t2)\<rparr>)"
      by (simp add: t1 t2)
    then show "\<exists>t. \<forall>tr. seq (f # fs) (s\<lparr>trace := tr\<rparr>) = Inr (s\<lparr>trace := tr @ t\<rparr>) \<and>
                      seq (f' # fs') (s\<lparr>trace := tr\<rparr>) = Inr (s\<lparr>trace := tr @ t\<rparr>)"
      by blast
  qed
qed

lemma RenderScene_calls_same_output:
  "list_all2 same_output (RenderScene_calls g u) (RenderScene_calls g u')"
  unfolding RenderScene_calls_def by simp

lemma RenderScene_same_output: "same_output (RenderScene g u) (RenderScene g u')"
  unfolding RenderScene_def
  by (rule same_output_seq) (rule RenderScene_calls_same_output)

lemma RenderScene_prepared:
  assumes "prepared s"
  shows "\<exists>t. \<forall>u u'. RenderScene g u s = Inr (emit t s) \<and>
                     RenderScene g u' (emit t s) = Inr (emit (t @ t) s)"
proof -
  define u0 :: "nat \<Rightarrow> OBJECT_MATERIAL" where "u0 = (\<lambda>k. junk_material)"
  from RenderScene_same_output[of g u0 u0] assms obtain t where
    t: "\<And>tr. RenderScene g u0 (s\<lparr>trace := tr\<rparr>) = Inr (s\<lparr>trace := tr @ t\<rparr>)"
    unfolding same_output_def by blast
  have any: "RenderScene g u (s\<lparr>trace := tr\<rparr>) = Inr (s\<lparr>trace := tr @ t\<rparr>)" for u tr
  proof -
    from RenderScene_same_output[of g u0 u] assms obtain t' where
      t': "\<And>tr. RenderScene g u0 (s\<lparr>trace := tr\<rparr>) = Inr (s\<lparr>trace := tr @ t'\<rparr>)"
          "\<And>tr. RenderScene g u (s\<lparr>trace := tr\<rparr>) = Inr (s\<lparr>trace := tr @ t'\<rparr>)"
      unfolding same_output_def by blast
    from t[of tr] t'(1)[of tr] have "s\<lparr>trace := tr @ t\<rparr> = s\<lparr>trace := tr @ t'\<rparr>" by simp
    then have "trace (s\<lparr>trace := tr @ t\<rparr>) = trace (s\<lparr>trace := tr @ t'\<rparr>)" by simp
    then have "t = t'" by simp
    with t'(2) show ?thesis by simp
  qed
  have "\<forall>u u'. RenderScene g u s = Inr (emit t s) \<and>
                     RenderScene g u' (emit t s) = Inr (emit (t @ t) s)"
    using any[of _ "trace s"] any[of _ "trace s @ t"] by (simp add: emit_def)
  then show ?thesis by blast
qed

lemma seq_last:
  "seq fs s = Inr s' \<Longrightarrow> fs \<noteq> [] \<Longrightarrow> \<exists>s''. last fs s'' = Inr s'"
proof (induction fs arbitrary: s)
  case Nil
  then show ?case by simp
next
  case (Cons f fs)
  show ?case
  proof (cases "fs = []")
    case True
    with Cons.prems show ?thesis by (auto split: sum.splits)
  next
    case False
    from Cons.prems obtain s1 where "f s = Inr s1" and "seq fs s1 = Inr s'"
      by (auto split: sum.splits)
    with Cons.IH[OF _ False] False show ?thesis by simp
  qed
qed

lemma BindGLTextures_for_Inr:
  "0 \<le> i \<Longrightarrow> i \<le> int (length (m_textureIDs s)) \<Longrightarrow> BindGLTextures_for s i = Inr s' \<Longrightarrow>
   count_in_array s \<and> (\<exists>cs. s' = emit cs s)"
proof (induction s i rule: BindGLTextures_for.induct)
  case (1 s i)
  show ?case
  proof (cases "i < m_loadedTextures s")
    case False
    with 1(4) have "s' = s" by (subst (asm) BindGLTextures_for.simps) simp
    then have "s' = emit [] s" by (simp add: emit_def)
    with False 1(3) show ?thesis by (auto simp: count_in_array_def)
  next
    case True
    let ?s1 = "emit [glActiveTexture i, glBindTexture GL_TEXTURE_2D (ID (m_textureIDs s ! nat i))] s"
    from True 1(4) have ia: "in_array i (m_textureIDs s)" and
      rec: "BindGLTextures_for ?s1 (i + 1) = Inr s'"
      by (subst (asm) BindGLTextures_for.simps, simp split: if_splits)+
    from ia have "0 \<le> i + 1" and "i + 1 \<le> int (length (m_textureIDs ?s1))"
      by (simp_all add: in_array_def)
    from 1(1)[OF True _ this rec] ia
    have "count_in_array ?s1 \<and> (\<exists>cs. s' = emit cs ?s1)" by simp
    then show ?thesis by (auto simp: emit_emit)
  qed
qed

lemma LoadSceneTextures_Inr:
  assumes "LoadSceneTextures p s0 = Inr s1"
  shows "count_in_array s1"
proof -
  from assms obtain s'' where "BindGLTextures s'' = Inr s1"
    unfolding LoadSceneTextures_def by (drule_tac seq_last) auto
  then have "BindGLTextures_for s'' 0 = Inr s1" by (simp add: BindGLTextures_def)
  from BindGLTextures_for_Inr[OF _ _ this] show ?thesis by auto
qed

lemma PrepareScene_prepared:
  assumes "PrepareScene p s0 = Inr s"
  shows "prepared s"
proof -
  from assms obtain s1 where
    load: "LoadSceneTextures p s0 = Inr s1" and
    rest: "seq [total DefineObjectMaterials, SetupSceneLights,
                total (m_basicMeshes LoadPlaneMesh), total (m_basicMeshes LoadSphereMesh),
                total (m_basicMeshes LoadCylinderMesh), total (m_basicMeshes LoadTorusMesh),
                total (m_basicMeshes LoadBoxMesh),
                total (m_basicMeshes LoadTaperedCylinderMesh)] s1 = Inr s"
    unfolding PrepareScene_def by (auto split: sum.splits)
  note c = LoadSceneTextures_Inr[OF load]
  from rest have
    "m_pShaderManager s \<noteq> NULL \<and> m_textureIDs s = m_textureIDs s1 \<and>
     m_loadedTextures s = m_loadedTextures s1 \<and>
     m_objectMaterials s = m_objectMaterials s1 @
       [cementMaterial, tileMaterial, marbleMaterial, dirtMaterial, metalMaterial,
        glassMaterial, plasticMaterial]"
    by (auto simp: total_def SetupSceneLights_def m_basicMeshes_def DefineObjectMaterials_def
        push_back_def split: if_splits)
  with c show ?thesis
    by (simp add: prepared_def count_in_array_def material_tags_def
        cementMaterial_def tileMaterial_def marbleMaterial_def dirtMaterial_def
        metalMaterial_def glassMaterial_def plasticMaterial_def)
qed

text \<open>
  C3. After a \<^verbatim>\<open>PrepareScene\<close> that returned, \<^verbatim>\<open>RenderScene\<close> returns, changes nothing in
  the object, and appends a sequence \<open>t\<close> of uniform writes and draw calls that is the same
  whatever the uninitialised locals hold; run a second time without preparing again, it
  appends the same sequence \<open>t\<close>.
\<close>

theorem RenderScene_rerender:
  assumes "PrepareScene p s0 = Inr s"
  shows "\<exists>t. \<forall>uninit uninit'.
           RenderScene g uninit s = Inr (emit t s) \<and>
           RenderScene g uninit' (emit t s) = Inr (emit (t @ t) s)"
  by (rule RenderScene_prepared[OF PrepareScene_prepared[OF assms]])

theorem RenderScene_rerender_witness:
  "\<exists>s. PrepareScene rgb_files fresh_scene = Inr s \<and> m_loadedTextures s = 11 \<and>
     (\<exists>t. \<forall>uninit uninit'.
           RenderScene glm_exact uninit s = Inr (emit t s) \<and>
           RenderScene glm_exact uninit' (emit t s) = Inr (emit (t @ t) s))"
proof -
  obtain s where s: "PrepareScene rgb_files fresh_scene = Inr s" and n: "m_loadedTextures s = 11"
    by (simp add: PrepareScene_def LoadSceneTextures_def result_unused_def CreateGLTexture_def
        register_texture_def in_array_def BindGLTextures_def BindGLTextures_for.simps
        total_def SetupSceneLights_def m_basicMeshes_def DefineObjectMaterials_def push_back_def
        fresh_scene_def rgb_files_def emit_def Let_def)
  show ?thesis
    using RenderScene_rerender[OF s, of glm_exact] s n by blast
qed

end
